theory Spec2Isabelle
  imports Main "HOL-Library.Sublist"
begin

section \<open>Values and configuration\<close>

text \<open>
  The TypeScript type \<^verbatim>\<open>Environment\<close> is a union of four string literals. Types are
  erased at run time and the resolver returns strings read from the host
  (\<^verbatim>\<open>return value as Environment\<close>), so an environment is modelled as the string it
  is; that only the four names are ever returned is a property to prove.
  \<^verbatim>\<open>Position\<close> and \<^verbatim>\<open>Size\<close> only ever come from the typed configuration.
\<close>

type_synonym Environment = string

datatype Position = TopRight | TopLeft | BottomRight | BottomLeft

datatype Size = Small | Medium | Large

text \<open>
  \<^verbatim>\<open>interface EnvFlagConfig\<close>: every property is optional. In an object of this type
  a property is not named (\<open>None\<close>), named with the value \<^verbatim>\<open>undefined\<close>
  (\<open>Some None\<close>, which the optional properties of TypeScript admit), or named with a
  value of its type (\<open>Some (Some v)\<close>).
\<close>

record EnvFlagConfig =
  opt_productionColor :: "string option option"
  opt_developmentColor :: "string option option"
  opt_stagingColor :: "string option option"
  opt_testColor :: "string option option"
  opt_productionText :: "string option option"
  opt_developmentText :: "string option option"
  opt_stagingText :: "string option option"
  opt_testText :: "string option option"
  opt_position :: "Position option option"
  opt_size :: "Size option option"
  opt_autoDetectEnv :: "bool option option"
  opt_forceEnv :: "Environment option option"
  opt_enabled :: "bool option option"
  opt_debug :: "bool option option"

text \<open>
  \<^verbatim>\<open>this.config\<close>. Its declared type is
  \<^verbatim>\<open>Required<Omit<EnvFlagConfig, "forceEnv">> & Pick<EnvFlagConfig, "forceEnv">\<close>,
  but the object is built by spreading and by \<^verbatim>\<open>Object.assign\<close>, which copy a property
  named with \<^verbatim>\<open>undefined\<close> like any other. So at run time each field holds a value of
  its type or \<^verbatim>\<open>undefined\<close> (\<open>None\<close>).
\<close>

record ResolvedConfig =
  productionColor :: "string option"
  developmentColor :: "string option"
  stagingColor :: "string option"
  testColor :: "string option"
  productionText :: "string option"
  developmentText :: "string option"
  stagingText :: "string option"
  testText :: "string option"
  position :: "Position option"
  size_cfg :: "Size option"
  autoDetectEnv :: "bool option"
  forceEnv :: "Environment option"
  enabled :: "bool option"
  debug :: "bool option"

definition DEFAULT_CONFIG :: ResolvedConfig where
  "DEFAULT_CONFIG =
     \<lparr> productionColor = Some ''#f8285a'', developmentColor = Some ''#17c653'',
       stagingColor = Some ''#f39c12'', testColor = Some ''#9b59b6'',
       productionText = Some ''PROD'', developmentText = Some ''DEV'',
       stagingText = Some ''STAGING'', testText = Some ''TEST'',
       position = Some BottomRight, size_cfg = Some Medium, autoDetectEnv = Some True,
       forceEnv = None, enabled = Some True, debug = Some False \<rparr>"

definition ELEMENT_ID :: string where
  "ELEMENT_ID = ''env-flag-indicator''"

definition Z_INDEX :: string where
  "Z_INDEX = ''999999''"

text \<open>
  \<^verbatim>\<open>{ ...target, ...source }\<close> and \<^verbatim>\<open>Object.assign(target, source)\<close>: every property
  named in the source replaces the target's, also when it is named with \<^verbatim>\<open>undefined\<close>;
  the others stay.
\<close>

definition assignField :: "'a \<Rightarrow> 'a option \<Rightarrow> 'a" where
  "assignField old new = (case new of None \<Rightarrow> old | Some v \<Rightarrow> v)"

definition assign :: "ResolvedConfig \<Rightarrow> EnvFlagConfig \<Rightarrow> ResolvedConfig" where
  "assign c p =
     \<lparr> productionColor = assignField (productionColor c) (opt_productionColor p),
       developmentColor = assignField (developmentColor c) (opt_developmentColor p),
       stagingColor = assignField (stagingColor c) (opt_stagingColor p),
       testColor = assignField (testColor c) (opt_testColor p),
       productionText = assignField (productionText c) (opt_productionText p),
       developmentText = assignField (developmentText c) (opt_developmentText p),
       stagingText = assignField (stagingText c) (opt_stagingText p),
       testText = assignField (testText c) (opt_testText p),
       position = assignField (position c) (opt_position p),
       size_cfg = assignField (size_cfg c) (opt_size p),
       autoDetectEnv = assignField (autoDetectEnv c) (opt_autoDetectEnv p),
       forceEnv = assignField (forceEnv c) (opt_forceEnv p),
       enabled = assignField (enabled c) (opt_enabled p),
       debug = assignField (debug c) (opt_debug p) \<rparr>"

section \<open>The host: ambient globals\<close>

text \<open>
  What the code reads from its host. A global that is not declared raises a
  \<^verbatim>\<open>ReferenceError\<close> when it is read other than under \<^verbatim>\<open>typeof\<close>; optional chaining
  (\<^verbatim>\<open>navigator?.userAgent\<close>) does not guard that. Reading a property of \<^verbatim>\<open>undefined\<close>
  raises a \<^verbatim>\<open>TypeError\<close>. \<open>location_hostname\<close> is the value of
  \<^verbatim>\<open>window.location?.hostname\<close>, \<open>import_meta_env\<close> that of \<^verbatim>\<open>import.meta.env\<close> and
  \<open>process_env\<close> that of \<^verbatim>\<open>globalThis.process?.env\<close>, \<open>None\<close> when undefined.
  Console output is not modelled.
\<close>

datatype error = ReferenceError string | TypeError string

record Host =
  window_defined :: bool
  document_defined :: bool
  navigator_defined :: bool
  requestAnimationFrame_defined :: bool
  location_hostname :: "string option"
  navigator_userAgent :: "string option"
  import_meta_env :: "(string \<rightharpoonup> string) option"
  process_env :: "(string \<rightharpoonup> string) option"

text \<open>
  JavaScript truthiness of a string-or-undefined value and of a boolean-or-undefined
  value, and \<^verbatim>\<open>a || b\<close> on strings.
\<close>

definition truthy :: "string option \<Rightarrow> bool" where
  "truthy v = (case v of None \<Rightarrow> False | Some s \<Rightarrow> s \<noteq> [])"

definition truthy_flag :: "bool option \<Rightarrow> bool" where
  "truthy_flag v = (case v of None \<Rightarrow> False | Some b \<Rightarrow> b)"

definition js_or :: "string option \<Rightarrow> string option \<Rightarrow> string option" where
  "js_or a b = (if truthy a then a else b)"

text \<open>\<^verbatim>\<open>v || ""\<close>\<close>

definition or_empty :: "string option \<Rightarrow> string" where
  "or_empty v = (case v of None \<Rightarrow> [] | Some s \<Rightarrow> s)"

text \<open>\<^verbatim>\<open>s.includes(x)\<close>: \<open>x\<close> occurs in \<open>s\<close> as a contiguous substring.\<close>

definition str_includes :: "string \<Rightarrow> string \<Rightarrow> bool" where
  "str_includes s x = sublist x s"

section \<open>Environment resolution\<close>

definition isValidEnvironmentString :: "string \<Rightarrow> bool" where
  "isValidEnvironmentString env =
     (env \<in> set [''development'', ''production'', ''staging'', ''test''])"

definition isValidEnvironment :: "Host \<Rightarrow> bool" where
  "isValidEnvironment h = (window_defined h \<and> document_defined h)"

definition getNodeEnv :: "Host \<Rightarrow> string" where
  "getNodeEnv h =
     (let viteEnv = (case import_meta_env h of
                       None \<Rightarrow> None
                     | Some env \<Rightarrow> js_or (env ''NODE_ENV'') (env ''VITE_NODE_ENV''));
          nodeEnv = (case process_env h of None \<Rightarrow> None | Some env \<Rightarrow> env ''NODE_ENV'')
      in if truthy viteEnv \<and> isValidEnvironmentString (or_empty viteEnv) then or_empty viteEnv
         else if truthy nodeEnv \<and> isValidEnvironmentString (or_empty nodeEnv)
           then or_empty nodeEnv
         else [])"

definition customEnvVars :: "string list" where
  "customEnvVars =
     [''VITE_APP_NODE_ENV'', ''VITE_APP_ENV'', ''VITE_ENV'', ''REACT_APP_NODE_ENV'',
      ''REACT_APP_ENV'', ''VUE_APP_NODE_ENV'', ''VUE_APP_ENV'']"

text \<open>
  The loop \<^verbatim>\<open>for (const envVar of customEnvVars)\<close> of \<^verbatim>\<open>getCustomEnv\<close>, which returns
  from the function at the first variable with a valid value; \<open>None\<close> when the loop
  runs to its end.
\<close>

fun customEnvLoop :: "(string \<rightharpoonup> string) \<Rightarrow> string list \<Rightarrow> string option" where
  "customEnvLoop env [] = None"
| "customEnvLoop env (envVar # rest) =
     (let v = env envVar
      in if truthy v \<and> isValidEnvironmentString (or_empty v) then Some (or_empty v)
         else customEnvLoop env rest)"

definition getCustomEnv :: "Host \<Rightarrow> string" where
  "getCustomEnv h =
     (case (case import_meta_env h of
              None \<Rightarrow> None
            | Some env \<Rightarrow> customEnvLoop env customEnvVars) of
        Some v \<Rightarrow> v
      | None \<Rightarrow>
          (case (case process_env h of
                   None \<Rightarrow> None
                 | Some env \<Rightarrow> customEnvLoop env customEnvVars) of
             Some v \<Rightarrow> v
           | None \<Rightarrow> []))"

text \<open>
  \<^verbatim>\<open>detectEnvironment\<close>. The object literal \<^verbatim>\<open>indicators\<close> is evaluated first, in the
  order hostname, nodeEnv, customEnv, userAgent, so \<^verbatim>\<open>window\<close> is read before
  \<^verbatim>\<open>navigator\<close>.
\<close>

definition detectEnvironment :: "Host \<Rightarrow> error + Environment" where
  "detectEnvironment h =
     (if \<not> window_defined h then Inl (ReferenceError ''window'')
      else if \<not> navigator_defined h then Inl (ReferenceError ''navigator'')
      else
        let hostname = or_empty (location_hostname h);
            nodeEnv = getNodeEnv h;
            customEnv = getCustomEnv h
        in if customEnv \<noteq> [] then Inr customEnv
           else if nodeEnv \<noteq> [] then Inr nodeEnv
           else if str_includes hostname ''prod'' \<or>
                   (\<not> str_includes hostname ''localhost'' \<and>
                    \<not> str_includes hostname ''127.0.0.1'' \<and>
                    \<not> str_includes hostname ''dev'' \<and>
                    \<not> str_includes hostname ''staging'' \<and>
                    \<not> str_includes hostname ''test'' \<and>
                    length hostname > 0)
             then Inr ''production''
           else if str_includes hostname ''staging'' \<or> str_includes hostname ''stage''
             then Inr ''staging''
           else if str_includes hostname ''test'' then Inr ''test''
           else Inr ''development'')"

definition getCurrentEnvironment :: "ResolvedConfig \<Rightarrow> Host \<Rightarrow> error + Environment" where
  "getCurrentEnvironment c h =
     (if truthy (forceEnv c) then Inr (or_empty (forceEnv c))
      else if \<not> truthy_flag (autoDetectEnv c) then Inr ''development''
      else detectEnvironment h)"

section \<open>Document and component state\<close>

text \<open>
  The part of the document the component touches. Elements live in a store and are
  named by reference; the \<open>style\<close> of an element records the value last assigned to
  each property, a string or \<^verbatim>\<open>undefined\<close>. \<open>body\<close> lists, in document order, the
  indicator elements that are children of \<^verbatim>\<open>document.body\<close>, and is \<open>None\<close> while
  \<^verbatim>\<open>document.body\<close> is null (other children of the body are not tracked).
  \<open>registered\<close> holds the listeners that \<^verbatim>\<open>addEventListener\<close> put on elements,
  \<open>animationFrames\<close> the callbacks handed to \<^verbatim>\<open>requestAnimationFrame\<close> that have not
  run yet.
\<close>

type_synonym element_ref = nat

datatype handler = HandleClick | HandleMouseEnter | HandleMouseLeave | HandleKeydown

type_synonym listener = "element_ref \<times> string \<times> handler"

record Element =
  element_id :: string
  attributes :: "string \<rightharpoonup> string"
  style :: "string \<rightharpoonup> string option"
  textContent :: string

datatype frame_callback = AppendFlagElement

record Document =
  elements :: "element_ref \<Rightarrow> Element"
  nextRef :: element_ref
  body :: "element_ref list option"
  registered :: "listener list"
  animationFrames :: "frame_callback list"

text \<open>An \<^verbatim>\<open>EnvFlag\<close> instance (its three fields) together with the document it acts on.\<close>

record State = Document +
  config :: ResolvedConfig
  flagElement :: "element_ref option"
  eventListeners :: "listener list"

text \<open>How a call ends: it returns, or an exception leaves it.\<close>

datatype outcome = Returned | Threw error

definition and_then ::
    "outcome \<times> State \<Rightarrow> (State \<Rightarrow> outcome \<times> State) \<Rightarrow> outcome \<times> State" where
  "and_then r f = (case fst r of Returned \<Rightarrow> f (snd r) | Threw e \<Rightarrow> r)"

definition blankElement :: Element where
  "blankElement =
     \<lparr> element_id = [], attributes = Map.empty, style = Map.empty, textContent = [] \<rparr>"

definition emptyDocument :: "element_ref list option \<Rightarrow> Document" where
  "emptyDocument b =
     \<lparr> elements = (\<lambda>_. blankElement), nextRef = 0, body = b, registered = [],
       animationFrames = [] \<rparr>"

text \<open>\<^verbatim>\<open>constructor(config: EnvFlagConfig = {})\<close>, in a given document.\<close>

definition new_EnvFlag :: "EnvFlagConfig \<Rightarrow> Document \<Rightarrow> State" where
  "new_EnvFlag p d =
     \<lparr> elements = elements d, nextRef = nextRef d, body = body d,
       registered = registered d, animationFrames = animationFrames d,
       config = assign DEFAULT_CONFIG p, flagElement = None, eventListeners = [] \<rparr>"

definition noConfig :: EnvFlagConfig where
  "noConfig =
     \<lparr> opt_productionColor = None, opt_developmentColor = None, opt_stagingColor = None,
       opt_testColor = None, opt_productionText = None, opt_developmentText = None,
       opt_stagingText = None, opt_testText = None, opt_position = None, opt_size = None,
       opt_autoDetectEnv = None, opt_forceEnv = None, opt_enabled = None,
       opt_debug = None \<rparr>"

subsection \<open>Document primitives\<close>

definition createElement :: "State \<Rightarrow> element_ref \<times> State" where
  "createElement s =
     (nextRef s,
      s\<lparr> elements := (elements s)(nextRef s := blankElement), nextRef := Suc (nextRef s) \<rparr>)"

definition updateElement :: "element_ref \<Rightarrow> (Element \<Rightarrow> Element) \<Rightarrow> State \<Rightarrow> State" where
  "updateElement el f s = s\<lparr> elements := (elements s)(el := f (elements s el)) \<rparr>"

definition setAttribute :: "element_ref \<Rightarrow> string \<Rightarrow> string \<Rightarrow> State \<Rightarrow> State" where
  "setAttribute el k v s = updateElement el (\<lambda>e. e\<lparr> attributes := (attributes e)(k \<mapsto> v) \<rparr>) s"

definition addEventListener :: "element_ref \<Rightarrow> string \<Rightarrow> handler \<Rightarrow> State \<Rightarrow> State" where
  "addEventListener el ev hdl s =
     (if (el, ev, hdl) \<in> set (registered s) then s
      else s\<lparr> registered := registered s @ [(el, ev, hdl)] \<rparr>)"

definition removeEventListener :: "element_ref \<Rightarrow> string \<Rightarrow> handler \<Rightarrow> State \<Rightarrow> State" where
  "removeEventListener el ev hdl s = s\<lparr> registered := removeAll (el, ev, hdl) (registered s) \<rparr>"

text \<open>\<^verbatim>\<open>appendChild\<close> of a node that is already a child moves it to the end.\<close>

definition appendChild :: "element_ref \<Rightarrow> element_ref list \<Rightarrow> element_ref list" where
  "appendChild el b = filter (\<lambda>x. x \<noteq> el) b @ [el]"

definition removeChild :: "element_ref \<Rightarrow> element_ref list \<Rightarrow> element_ref list" where
  "removeChild el b = filter (\<lambda>x. x \<noteq> el) b"

text \<open>The number of indicator elements in the document.\<close>

definition indicatorCount :: "State \<Rightarrow> nat" where
  "indicatorCount s = (case body s of None \<Rightarrow> 0 | Some b \<Rightarrow> length b)"

subsection \<open>Style and layout\<close>

record EnvFlagStyles =
  backgroundColor :: "string option"
  color :: string
  fontSize :: string
  padding :: string
  borderRadius :: "string option"
  opacity :: string

text \<open>
  \<^verbatim>\<open>getSizeStyles\<close> indexes an object literal by \<^verbatim>\<open>this.config.size\<close> and returns the
  pair (fontSize, padding), or \<^verbatim>\<open>undefined\<close> when the size is.
\<close>

definition getSizeStyles :: "ResolvedConfig \<Rightarrow> (string \<times> string) option" where
  "getSizeStyles c =
     (case size_cfg c of
        None \<Rightarrow> None
      | Some Small \<Rightarrow> Some (''10px'', ''4px 8px'')
      | Some Medium \<Rightarrow> Some (''12px'', ''6px 12px'')
      | Some Large \<Rightarrow> Some (''14px'', ''8px 16px''))"

text \<open>\<^verbatim>\<open>getPositionStyles\<close> returns an object with the border radius.\<close>

definition getPositionStyles :: "ResolvedConfig \<Rightarrow> string option" where
  "getPositionStyles c =
     (case position c of
        None \<Rightarrow> None
      | Some TopRight \<Rightarrow> Some ''0 0 0 4px''
      | Some TopLeft \<Rightarrow> Some ''0 0 4px 0''
      | Some BottomLeft \<Rightarrow> Some ''0 4px 0 0''
      | Some BottomRight \<Rightarrow> Some ''4px 0 0 0'')"

text \<open>
  \<^verbatim>\<open>getPositionCoordinates\<close>, as the properties that spreading its result adds
  (spreading \<^verbatim>\<open>undefined\<close> adds none).
\<close>

definition getPositionCoordinates :: "ResolvedConfig \<Rightarrow> (string \<times> string option) list" where
  "getPositionCoordinates c =
     (case position c of
        None \<Rightarrow> []
      | Some TopRight \<Rightarrow> [(''top'', Some ''0''), (''right'', Some ''0'')]
      | Some TopLeft \<Rightarrow> [(''top'', Some ''0''), (''left'', Some ''0'')]
      | Some BottomLeft \<Rightarrow> [(''bottom'', Some ''0''), (''left'', Some ''0'')]
      | Some BottomRight \<Rightarrow> [(''bottom'', Some ''0''), (''right'', Some ''0'')])"

text \<open>
  A lookup in an object literal keyed by the four environment names: \<^verbatim>\<open>undefined\<close>
  when the name is not a key or the value is \<^verbatim>\<open>undefined\<close>.
\<close>

definition byEnvironment ::
    "string option \<Rightarrow> string option \<Rightarrow> string option \<Rightarrow> string option \<Rightarrow> Environment \<Rightarrow>
     string option" where
  "byEnvironment production development staging test environment =
     (case map_of [(''production'', production), (''development'', development),
                   (''staging'', staging), (''test'', test)] environment of
        None \<Rightarrow> None
      | Some v \<Rightarrow> v)"

text \<open>
  \<^verbatim>\<open>getEnvironmentStyles\<close> reads \<^verbatim>\<open>this.getSizeStyles().fontSize\<close>, which raises when the
  size is \<^verbatim>\<open>undefined\<close>.
\<close>

definition getEnvironmentStyles ::
    "ResolvedConfig \<Rightarrow> Environment \<Rightarrow> error + EnvFlagStyles" where
  "getEnvironmentStyles c environment =
     (case getSizeStyles c of
        None \<Rightarrow> Inl (TypeError ''fontSize'')
      | Some sizeStyles \<Rightarrow>
          Inr \<lparr> backgroundColor =
                  byEnvironment (productionColor c) (developmentColor c) (stagingColor c)
                    (testColor c) environment,
                color = ''#ffffff'',
                fontSize = fst sizeStyles,
                padding = snd sizeStyles,
                borderRadius = getPositionStyles c,
                opacity = ''0.9'' \<rparr>)"

definition getEnvironmentText :: "ResolvedConfig \<Rightarrow> Environment \<Rightarrow> string option" where
  "getEnvironmentText c environment =
     byEnvironment (productionText c) (developmentText c) (stagingText c) (testText c)
       environment"

text \<open>The font family literal, whose first name is in double quotes (character 0x22).\<close>

definition FONT_FAMILY :: string where
  "FONT_FAMILY =
     CHR 0x22 # ''Segoe UI'' @ CHR 0x22 # '', system-ui, -apple-system, sans-serif''"

text \<open>
  \<^verbatim>\<open>applyStyles\<close>. Assigning \<^verbatim>\<open>undefined\<close> to \<^verbatim>\<open>textContent\<close> gives the element the empty
  text.
\<close>

definition applyStyles :: "Environment \<Rightarrow> State \<Rightarrow> outcome \<times> State" where
  "applyStyles environment s =
     (case flagElement s of
        None \<Rightarrow> (Returned, s)
      | Some el \<Rightarrow>
          (case getEnvironmentStyles (config s) environment of
             Inl err \<Rightarrow> (Threw err, s)
           | Inr styles \<Rightarrow>
               (case getSizeStyles (config s) of
                  None \<Rightarrow> (Threw (TypeError ''fontSize''), s)
                | Some sizeStyles \<Rightarrow>
                    let positionStyles = getPositionStyles (config s)
                    in (Returned,
                        updateElement el
                          (\<lambda>e. e\<lparr> style := style e ++ map_of
                             ([(''textContent'', getEnvironmentText (config s) environment),
                               (''backgroundColor'', backgroundColor styles),
                               (''color'', Some (color styles)),
                               (''fontFamily'', Some FONT_FAMILY),
                               (''fontWeight'', Some ''600''),
                               (''fontSize'', Some (fst sizeStyles)),
                               (''lineHeight'', Some ''1''),
                               (''textAlign'', Some ''center''),
                               (''position'', Some ''fixed''),
                               (''zIndex'', Some Z_INDEX),
                               (''padding'', Some (snd sizeStyles)),
                               (''borderRadius'', positionStyles),
                               (''opacity'', Some (opacity styles)),
                               (''cursor'', Some ''pointer''),
                               (''userSelect'', Some ''none''),
                               (''transition'', Some ''all 0.2s ease-in-out'')]
                              @ getPositionCoordinates (config s)
                              @ [(''outline'', Some ''none'')]),
                            textContent :=
                              or_empty (getEnvironmentText (config s) environment) \<rparr>)
                          s))))"

subsection \<open>Listeners\<close>

text \<open>
  Every \<^verbatim>\<open>bind\<close> makes a new function, so a registration is identified by the element,
  the event name and which method was bound.
\<close>

definition attachOne :: "element_ref \<Rightarrow> string \<Rightarrow> handler \<Rightarrow> State \<Rightarrow> State" where
  "attachOne el ev hdl s =
     (addEventListener el ev hdl s)\<lparr> eventListeners := eventListeners s @ [(el, ev, hdl)] \<rparr>"

definition attachEventListeners :: "State \<Rightarrow> State" where
  "attachEventListeners s =
     (case flagElement s of
        None \<Rightarrow> s
      | Some el \<Rightarrow>
          let s1 = attachOne el ''click'' HandleClick s;
              s2 = addEventListener el ''mouseleave'' HandleMouseLeave
                     (addEventListener el ''mouseenter'' HandleMouseEnter s1);
              s3 = s2\<lparr> eventListeners := eventListeners s2 @
                         [(el, ''mouseenter'', HandleMouseEnter),
                          (el, ''mouseleave'', HandleMouseLeave)] \<rparr>;
              s4 = setAttribute el ''tabindex'' ''0''
                     (addEventListener el ''keydown'' HandleKeydown s3)
          in s4\<lparr> eventListeners := eventListeners s4 @ [(el, ''keydown'', HandleKeydown)] \<rparr>)"

definition removeEventListeners :: "State \<Rightarrow> State" where
  "removeEventListeners s =
     (fold (\<lambda>(element, event, handler). removeEventListener element event handler)
        (eventListeners s) s)\<lparr> eventListeners := [] \<rparr>"

subsection \<open>Lifecycle\<close>

text \<open>
  \<^verbatim>\<open>removeFlagElement\<close>: \<^verbatim>\<open>this.flagElement\<close> is tested first, so \<^verbatim>\<open>document\<close> is read
  only when an element is held.
\<close>

definition removeFlagElement :: "Host \<Rightarrow> State \<Rightarrow> outcome \<times> State" where
  "removeFlagElement h s =
     (case flagElement s of
        None \<Rightarrow> (Returned, s)
      | Some el \<Rightarrow>
          if \<not> document_defined h then (Threw (ReferenceError ''document''), s)
          else (case body s of
                  None \<Rightarrow> (Returned, s)
                | Some b \<Rightarrow>
                    if el \<in> set b
                    then (Returned, s\<lparr> body := Some (removeChild el b), flagElement := None \<rparr>)
                    else (Returned, s)))"

definition destroy :: "Host \<Rightarrow> State \<Rightarrow> outcome \<times> State" where
  "destroy h s = removeFlagElement h (removeEventListeners s)"

text \<open>
  The callback that \<^verbatim>\<open>createFlag\<close> hands to \<^verbatim>\<open>requestAnimationFrame\<close>. It reads
  \<^verbatim>\<open>this.flagElement\<close> when it runs, not when it was scheduled.
\<close>

definition runCallback :: "frame_callback \<Rightarrow> State \<Rightarrow> State" where
  "runCallback cb s =
     (case cb of
        AppendFlagElement \<Rightarrow>
          (case flagElement s of
             None \<Rightarrow> s
           | Some el \<Rightarrow>
               (case body s of
                  None \<Rightarrow> s
                | Some b \<Rightarrow> s\<lparr> body := Some (appendChild el b) \<rparr>)))"

text \<open>An animation frame: the browser runs the callbacks scheduled so far, in order.\<close>

definition animationFrame :: "State \<Rightarrow> State" where
  "animationFrame s = fold runCallback (animationFrames s) (s\<lparr> animationFrames := [] \<rparr>)"

definition createFlag :: "Host \<Rightarrow> State \<Rightarrow> outcome \<times> State" where
  "createFlag h s =
     (case getCurrentEnvironment (config s) h of
        Inl err \<Rightarrow> (Threw err, s)
      | Inr environment \<Rightarrow>
          if \<not> document_defined h then (Threw (ReferenceError ''document''), s)
          else
            let (el, s1) = createElement s;
                s2 = s1\<lparr> flagElement := Some el \<rparr>;
                s3 = updateElement el (\<lambda>e. e\<lparr> element_id := ELEMENT_ID \<rparr>) s2;
                s4 = setAttribute el ''data-env'' environment s3;
                s5 = setAttribute el ''role'' ''status'' s4;
                s6 = setAttribute el ''aria-label'' (''Environment: '' @ environment) s5
            in and_then (applyStyles environment s6)
                 (\<lambda>s7.
                    let s8 = attachEventListeners s7
                    in if \<not> requestAnimationFrame_defined h
                       then (Threw (ReferenceError ''requestAnimationFrame''), s8)
                       else (Returned,
                             s8\<lparr> animationFrames :=
                                   animationFrames s8 @ [AppendFlagElement] \<rparr>)))"

definition init :: "Host \<Rightarrow> State \<Rightarrow> outcome \<times> State" where
  "init h s =
     (if \<not> isValidEnvironment h then (Returned, s)
      else if \<not> truthy_flag (enabled (config s)) then (Returned, s)
      else and_then (destroy h s) (createFlag h))"

definition updateConfig :: "Host \<Rightarrow> EnvFlagConfig \<Rightarrow> State \<Rightarrow> outcome \<times> State" where
  "updateConfig h newConfig s = init h (s\<lparr> config := assign (config s) newConfig \<rparr>)"

subsection \<open>Interaction handlers\<close>

definition handleClick :: "Host \<Rightarrow> State \<Rightarrow> outcome \<times> State" where
  "handleClick h s = destroy h s"

definition handleMouseEnter :: "State \<Rightarrow> State" where
  "handleMouseEnter s =
     (case flagElement s of
        None \<Rightarrow> s
      | Some el \<Rightarrow>
          updateElement el
            (\<lambda>e. e\<lparr> style := (style e)(''opacity'' \<mapsto> Some ''1'',
                                       ''transform'' \<mapsto> Some ''scale(1.05)'') \<rparr>) s)"

definition handleMouseLeave :: "State \<Rightarrow> State" where
  "handleMouseLeave s =
     (case flagElement s of
        None \<Rightarrow> s
      | Some el \<Rightarrow>
          updateElement el
            (\<lambda>e. e\<lparr> style := (style e)(''opacity'' \<mapsto> Some ''0.9'',
                                       ''transform'' \<mapsto> Some ''scale(1)'') \<rparr>) s)"

definition handleKeydown :: "Host \<Rightarrow> string \<Rightarrow> State \<Rightarrow> outcome \<times> State" where
  "handleKeydown h key s =
     (if key = ''Enter'' \<or> key = '' '' then destroy h s else (Returned, s))"

section \<open>The variant in src/index.ts\<close>

text \<open>
  The repository holds the class twice. The file \<^verbatim>\<open>src/index.ts\<close>, from which
  \<^verbatim>\<open>dist/index.js\<close> is built, differs from the one modelled above in four places: two
  default colours, two more style properties, a resolver that reads only
  \<^verbatim>\<open>process.env.NODE_ENV\<close> and the hostname, and \<^verbatim>\<open>try\<close>/\<^verbatim>\<open>catch\<close> around the bodies
  of \<^verbatim>\<open>init\<close> and \<^verbatim>\<open>destroy\<close>. Its \<^verbatim>\<open>isValidEnvironment\<close>, \<^verbatim>\<open>attachEventListeners\<close>,
  \<^verbatim>\<open>removeEventListeners\<close> and \<^verbatim>\<open>removeFlagElement\<close> are the same code.
\<close>

definition DEFAULT_CONFIG_index_ts :: ResolvedConfig where
  "DEFAULT_CONFIG_index_ts =
     \<lparr> productionColor = Some ''#e74c3c'', developmentColor = Some ''#3498db'',
       stagingColor = Some ''#f39c12'', testColor = Some ''#9b59b6'',
       productionText = Some ''PROD'', developmentText = Some ''DEV'',
       stagingText = Some ''STAGING'', testText = Some ''TEST'',
       position = Some BottomRight, size_cfg = Some Medium, autoDetectEnv = Some True,
       forceEnv = None, enabled = Some True, debug = Some False \<rparr>"

definition new_EnvFlag_index_ts :: "EnvFlagConfig \<Rightarrow> Document \<Rightarrow> State" where
  "new_EnvFlag_index_ts p d =
     \<lparr> elements = elements d, nextRef = nextRef d, body = body d,
       registered = registered d, animationFrames = animationFrames d,
       config = assign DEFAULT_CONFIG_index_ts p, flagElement = None,
       eventListeners = [] \<rparr>"

definition detectEnvironment_index_ts :: "Host \<Rightarrow> error + Environment" where
  "detectEnvironment_index_ts h =
     (if \<not> window_defined h then Inl (ReferenceError ''window'')
      else if \<not> navigator_defined h then Inl (ReferenceError ''navigator'')
      else
        let hostname = or_empty (location_hostname h);
            nodeEnv = or_empty (case process_env h of
                                  None \<Rightarrow> None
                                | Some env \<Rightarrow> env ''NODE_ENV'')
        in if nodeEnv = ''production'' \<or>
              str_includes hostname ''prod'' \<or>
              (\<not> str_includes hostname ''localhost'' \<and>
               \<not> str_includes hostname ''127.0.0.1'' \<and>
               \<not> str_includes hostname ''dev'' \<and>
               \<not> str_includes hostname ''staging'')
             then Inr ''production''
           else if nodeEnv = ''staging'' \<or>
                   str_includes hostname ''staging'' \<or>
                   str_includes hostname ''stage''
             then Inr ''staging''
           else if nodeEnv = ''test'' \<or> str_includes hostname ''test'' then Inr ''test''
           else Inr ''development'')"

definition getCurrentEnvironment_index_ts ::
    "ResolvedConfig \<Rightarrow> Host \<Rightarrow> error + Environment" where
  "getCurrentEnvironment_index_ts c h =
     (if truthy (forceEnv c) then Inr (or_empty (forceEnv c))
      else if \<not> truthy_flag (autoDetectEnv c) then Inr ''development''
      else detectEnvironment_index_ts h)"

definition applyStyles_index_ts :: "Environment \<Rightarrow> State \<Rightarrow> outcome \<times> State" where
  "applyStyles_index_ts environment s =
     (case flagElement s of
        None \<Rightarrow> (Returned, s)
      | Some el \<Rightarrow>
          (case getEnvironmentStyles (config s) environment of
             Inl err \<Rightarrow> (Threw err, s)
           | Inr styles \<Rightarrow>
               (case getSizeStyles (config s) of
                  None \<Rightarrow> (Threw (TypeError ''fontSize''), s)
                | Some sizeStyles \<Rightarrow>
                    let positionStyles = getPositionStyles (config s)
                    in (Returned,
                        updateElement el
                          (\<lambda>e. e\<lparr> style := style e ++ map_of
                             ([(''textContent'', getEnvironmentText (config s) environment),
                               (''backgroundColor'', backgroundColor styles),
                               (''color'', Some (color styles)),
                               (''fontFamily'', Some FONT_FAMILY),
                               (''fontWeight'', Some ''600''),
                               (''fontSize'', Some (fst sizeStyles)),
                               (''lineHeight'', Some ''1''),
                               (''textAlign'', Some ''center''),
                               (''position'', Some ''fixed''),
                               (''zIndex'', Some Z_INDEX),
                               (''padding'', Some (snd sizeStyles)),
                               (''borderRadius'', positionStyles),
                               (''boxShadow'', Some ''0 2px 8px rgba(0, 0, 0, 0.15)''),
                               (''backdropFilter'', Some ''blur(8px)''),
                               (''opacity'', Some (opacity styles)),
                               (''cursor'', Some ''pointer''),
                               (''userSelect'', Some ''none''),
                               (''transition'', Some ''all 0.2s ease-in-out'')]
                              @ getPositionCoordinates (config s)
                              @ [(''outline'', Some ''none'')]),
                            textContent :=
                              or_empty (getEnvironmentText (config s) environment) \<rparr>)
                          s))))"

definition createFlag_index_ts :: "Host \<Rightarrow> State \<Rightarrow> outcome \<times> State" where
  "createFlag_index_ts h s =
     (case getCurrentEnvironment_index_ts (config s) h of
        Inl err \<Rightarrow> (Threw err, s)
      | Inr environment \<Rightarrow>
          if \<not> document_defined h then (Threw (ReferenceError ''document''), s)
          else
            let (el, s1) = createElement s;
                s2 = s1\<lparr> flagElement := Some el \<rparr>;
                s3 = updateElement el (\<lambda>e. e\<lparr> element_id := ELEMENT_ID \<rparr>) s2;
                s4 = setAttribute el ''data-env'' environment s3;
                s5 = setAttribute el ''role'' ''status'' s4;
                s6 = setAttribute el ''aria-label'' (''Environment: '' @ environment) s5
            in and_then (applyStyles_index_ts environment s6)
                 (\<lambda>s7.
                    let s8 = attachEventListeners s7
                    in if \<not> requestAnimationFrame_defined h
                       then (Threw (ReferenceError ''requestAnimationFrame''), s8)
                       else (Returned,
                             s8\<lparr> animationFrames :=
                                   animationFrames s8 @ [AppendFlagElement] \<rparr>)))"

text \<open>
  \<^verbatim>\<open>try { ... } catch (error) { console.error(...) }\<close>: whatever the block did up to
  the exception stays done, and the statement completes normally.
\<close>

definition try_catch :: "outcome \<times> State \<Rightarrow> outcome \<times> State" where
  "try_catch r = (case fst r of Returned \<Rightarrow> r | Threw e \<Rightarrow> (Returned, snd r))"

definition destroy_index_ts :: "Host \<Rightarrow> State \<Rightarrow> outcome \<times> State" where
  "destroy_index_ts h s = try_catch (removeFlagElement h (removeEventListeners s))"

text \<open>The block guarded by \<^verbatim>\<open>try\<close> in \<^verbatim>\<open>init\<close>, and \<^verbatim>\<open>init\<close> itself.\<close>

definition init_index_ts_block :: "Host \<Rightarrow> State \<Rightarrow> outcome \<times> State" where
  "init_index_ts_block h s =
     (if \<not> isValidEnvironment h then (Returned, s)
      else if \<not> truthy_flag (enabled (config s)) then (Returned, s)
      else and_then (destroy_index_ts h s) (createFlag_index_ts h))"

definition init_index_ts :: "Host \<Rightarrow> State \<Rightarrow> outcome \<times> State" where
  "init_index_ts h s = try_catch (init_index_ts_block h s)"

definition updateConfig_index_ts ::
    "Host \<Rightarrow> EnvFlagConfig \<Rightarrow> State \<Rightarrow> outcome \<times> State" where
  "updateConfig_index_ts h newConfig s =
     init_index_ts h (s\<lparr> config := assign (config s) newConfig \<rparr>)"

section \<open>Vocabulary of the properties\<close>

text \<open>
  The hostname heuristic in the words of the specification: staging if the hostname
  contains "staging" or "stage"; else test if it contains "test"; else production if
  it is non-empty and contains none of "localhost", "127.0.0.1", "dev", "staging",
  "test"; else development.
\<close>

definition spec_hostname_heuristic :: "string \<Rightarrow> Environment" where
  "spec_hostname_heuristic hostname =
     (if str_includes hostname ''staging'' \<or> str_includes hostname ''stage'' then ''staging''
      else if str_includes hostname ''test'' then ''test''
      else if hostname \<noteq> [] \<and>
              \<not> str_includes hostname ''localhost'' \<and>
              \<not> str_includes hostname ''127.0.0.1'' \<and>
              \<not> str_includes hostname ''dev'' \<and>
              \<not> str_includes hostname ''staging'' \<and>
              \<not> str_includes hostname ''test''
        then ''production''
      else ''development'')"

text \<open>
  A hostname whose only marker is "stage": it contains "stage" and none of "prod",
  "staging", "localhost", "127.0.0.1", "dev", "test".
\<close>

definition stage_only :: "string \<Rightarrow> bool" where
  "stage_only hostname =
     (str_includes hostname ''stage'' \<and>
      \<not> str_includes hostname ''prod'' \<and>
      \<not> str_includes hostname ''staging'' \<and>
      \<not> str_includes hostname ''localhost'' \<and>
      \<not> str_includes hostname ''127.0.0.1'' \<and>
      \<not> str_includes hostname ''dev'' \<and>
      \<not> str_includes hostname ''test'')"

text \<open>
  The generic signal of src/index.ts, \<^verbatim>\<open>(globalThis as any).process?.env?.NODE_ENV || ''\<close>,
  and the hostnames that its production branch takes although the specification's
  heuristic sends them elsewhere: those that contain none of "prod", "localhost",
  "127.0.0.1", "dev", "staging", and contain "stage" or "test" or are empty. (The
  production branch of the other file excludes "test" and the empty hostname.)
\<close>

definition nodeEnv_index_ts :: "Host \<Rightarrow> string" where
  "nodeEnv_index_ts h =
     or_empty (case process_env h of None \<Rightarrow> None | Some env \<Rightarrow> env ''NODE_ENV'')"

definition missed_by_index_ts :: "string \<Rightarrow> bool" where
  "missed_by_index_ts hostname =
     (\<not> str_includes hostname ''prod'' \<and>
      \<not> str_includes hostname ''localhost'' \<and>
      \<not> str_includes hostname ''127.0.0.1'' \<and>
      \<not> str_includes hostname ''dev'' \<and>
      \<not> str_includes hostname ''staging'' \<and>
      (str_includes hostname ''stage'' \<or> str_includes hostname ''test'' \<or> hostname = []))"

text \<open>
  The custom-variable match in the words of the specification: the value of the first
  variable of the fixed priority list whose value is one of the four names; taken from
  \<^verbatim>\<open>import.meta.env\<close> first and from \<^verbatim>\<open>process.env\<close> when that gives none.
\<close>

definition spec_custom_match :: "(string \<rightharpoonup> string) \<Rightarrow> Environment option" where
  "spec_custom_match env = find isValidEnvironmentString (List.map_filter env customEnvVars)"

definition spec_custom_signal :: "Host \<Rightarrow> Environment option" where
  "spec_custom_signal h =
     (case Option.bind (import_meta_env h) spec_custom_match of
        Some e \<Rightarrow> Some e
      | None \<Rightarrow> Option.bind (process_env h) spec_custom_match)"

text \<open>
  What a host offers to each signal: the values of the seven custom variables, and
  the values of the variables that the generic signal reads.
\<close>

definition custom_vars_of ::
    "Host \<Rightarrow> string option list option \<times> string option list option" where
  "custom_vars_of h =
     (map_option (\<lambda>env. map env customEnvVars) (import_meta_env h),
      map_option (\<lambda>env. map env customEnvVars) (process_env h))"

definition node_vars_of ::
    "Host \<Rightarrow> (string option \<times> string option) option \<times> string option option" where
  "node_vars_of h =
     (map_option (\<lambda>env. (env ''NODE_ENV'', env ''VITE_NODE_ENV'')) (import_meta_env h),
      map_option (\<lambda>env. env ''NODE_ENV'') (process_env h))"

text \<open>A configuration whose override, when set, has the type \<^verbatim>\<open>Environment\<close>.\<close>

definition wellTyped :: "ResolvedConfig \<Rightarrow> bool" where
  "wellTyped c = (case forceEnv c of None \<Rightarrow> True | Some e \<Rightarrow> isValidEnvironmentString e)"

text \<open>
  A configuration is fully resolved when every field except the override holds a value.
  A partial configuration names values when none of these fields is named with
  \<^verbatim>\<open>undefined\<close>.
\<close>

definition resolved :: "ResolvedConfig \<Rightarrow> bool" where
  "resolved c =
     (productionColor c \<noteq> None \<and> developmentColor c \<noteq> None \<and> stagingColor c \<noteq> None \<and>
      testColor c \<noteq> None \<and> productionText c \<noteq> None \<and> developmentText c \<noteq> None \<and>
      stagingText c \<noteq> None \<and> testText c \<noteq> None \<and> position c \<noteq> None \<and>
      size_cfg c \<noteq> None \<and> autoDetectEnv c \<noteq> None \<and> enabled c \<noteq> None \<and>
      debug c \<noteq> None)"

definition names_values :: "EnvFlagConfig \<Rightarrow> bool" where
  "names_values p =
     (opt_productionColor p \<noteq> Some None \<and> opt_developmentColor p \<noteq> Some None \<and>
      opt_stagingColor p \<noteq> Some None \<and> opt_testColor p \<noteq> Some None \<and>
      opt_productionText p \<noteq> Some None \<and> opt_developmentText p \<noteq> Some None \<and>
      opt_stagingText p \<noteq> Some None \<and> opt_testText p \<noteq> Some None \<and>
      opt_position p \<noteq> Some None \<and> opt_size p \<noteq> Some None \<and>
      opt_autoDetectEnv p \<noteq> Some None \<and> opt_enabled p \<noteq> Some None \<and>
      opt_debug p \<noteq> Some None)"

text \<open>
  The invariant of the indicator element: the document holds no indicator element,
  or exactly the one the component currently holds in \<^verbatim>\<open>this.flagElement\<close>.
\<close>

definition indicator_inv :: "State \<Rightarrow> bool" where
  "indicator_inv s =
     (indicatorCount s = 0 \<or>
      (flagElement s \<noteq> None \<and> body s = map_option (\<lambda>el. [el]) (flagElement s)))"

text \<open>
  The states a component can be in: it is constructed in a document that holds no
  indicator element, and then the public methods are called, animation frames run and
  events reach the handlers, in any order and under any host.
\<close>

inductive reachable :: "State \<Rightarrow> bool" where
  constructed: "indicatorCount (new_EnvFlag p d) = 0 \<Longrightarrow> reachable (new_EnvFlag p d)"
| init: "reachable s \<Longrightarrow> reachable (snd (init h s))"
| destroy: "reachable s \<Longrightarrow> reachable (snd (destroy h s))"
| updateConfig: "reachable s \<Longrightarrow> reachable (snd (updateConfig h p s))"
| animationFrame: "reachable s \<Longrightarrow> reachable (animationFrame s)"
| click: "reachable s \<Longrightarrow> reachable (snd (handleClick h s))"
| keydown: "reachable s \<Longrightarrow> reachable (snd (handleKeydown h key s))"
| mouseEnter: "reachable s \<Longrightarrow> reachable (handleMouseEnter s)"
| mouseLeave: "reachable s \<Longrightarrow> reachable (handleMouseLeave s)"

text \<open>An animation frame that may or may not come between two calls.\<close>

definition maybeFrame :: "bool \<Rightarrow> State \<Rightarrow> State" where
  "maybeFrame tick s = (if tick then animationFrame s else s)"

text \<open>
  The state ABSENT: no indicator element is in the document and no scheduled callback
  can insert one.
\<close>

definition absent :: "State \<Rightarrow> bool" where
  "absent s = (indicatorCount s = 0 \<and> (flagElement s = None \<or> animationFrames s = []))"

subsection \<open>Concrete hosts and states\<close>

text \<open>A browser page at the given hostname, with the given environment objects.\<close>

definition browserHost ::
    "string \<Rightarrow> (string \<rightharpoonup> string) option \<Rightarrow> (string \<rightharpoonup> string) option \<Rightarrow> Host" where
  "browserHost hn meta proc =
     \<lparr> window_defined = True, document_defined = True, navigator_defined = True,
       requestAnimationFrame_defined = True, location_hostname = Some hn,
       navigator_userAgent = Some ''Mozilla/5.0'', import_meta_env = meta,
       process_env = proc \<rparr>"

definition localHost :: Host where
  "localHost = browserHost ''localhost'' None None"

text \<open>A page whose window has no \<^verbatim>\<open>requestAnimationFrame\<close>.\<close>

definition noFrameHost :: Host where
  "noFrameHost = localHost\<lparr> requestAnimationFrame_defined := False \<rparr>"

text \<open>A server-side host: no window, no document.\<close>

definition serverHost :: Host where
  "serverHost =
     \<lparr> window_defined = False, document_defined = False, navigator_defined = False,
       requestAnimationFrame_defined = False, location_hostname = None,
       navigator_userAgent = None, import_meta_env = None,
       process_env = Some [''NODE_ENV'' \<mapsto> ''production''] \<rparr>"

definition freshState :: State where
  "freshState = new_EnvFlag noConfig (emptyDocument (Some []))"

definition disabledState :: State where
  "disabledState =
     new_EnvFlag (noConfig\<lparr> opt_enabled := Some (Some False) \<rparr>) (emptyDocument (Some []))"

definition freshState_index_ts :: State where
  "freshState_index_ts = new_EnvFlag_index_ts noConfig (emptyDocument (Some []))"

text \<open>The indicator is shown, then the component is switched off by \<^verbatim>\<open>updateConfig\<close>.\<close>

definition shownState :: State where
  "shownState = animationFrame (snd (init localHost freshState))"

definition switchedOffState :: State where
  "switchedOffState =
     snd (updateConfig localHost (noConfig\<lparr> opt_enabled := Some (Some False) \<rparr>) shownState)"

text \<open>
  Hosts for the priority order: two pages that agree on the custom variables and
  differ in everything else, and two that have no custom variable and agree on
  \<^verbatim>\<open>NODE_ENV\<close>.
\<close>

definition customHostA :: Host where
  "customHostA =
     browserHost ''localhost''
       (Some [''VITE_ENV'' \<mapsto> ''staging'', ''NODE_ENV'' \<mapsto> ''production'']) None"

definition customHostB :: Host where
  "customHostB =
     browserHost ''app.example.com''
       (Some [''VITE_ENV'' \<mapsto> ''staging'', ''NODE_ENV'' \<mapsto> ''test'']) None"

definition nodeHostA :: Host where
  "nodeHostA = browserHost ''app.example.com'' None (Some [''NODE_ENV'' \<mapsto> ''test''])"

definition nodeHostB :: Host where
  "nodeHostB =
     browserHost ''localhost'' None (Some [''NODE_ENV'' \<mapsto> ''test'', ''HOME'' \<mapsto> ''/root''])"

text \<open>A page whose environment variables all hold values outside the four names.\<close>

definition malformedHost :: Host where
  "malformedHost =
     browserHost ''intranet''
       (Some [''VITE_ENV'' \<mapsto> ''Production'', ''NODE_ENV'' \<mapsto> ''prod''])
       (Some [''REACT_APP_ENV'' \<mapsto> ''qa'', ''NODE_ENV'' \<mapsto> ''''])"

definition devStageHost :: Host where
  "devStageHost =
     browserHost ''dev-stage.example.com''
       (Some [''VITE_ENV'' \<mapsto> ''preview'']) (Some [''NODE_ENV'' \<mapsto> ''qa''])"

definition preprodStagingHost :: Host where
  "preprodStagingHost = browserHost ''preprod-staging.example.com'' None None"

definition forcedConfig :: ResolvedConfig where
  "forcedConfig =
     DEFAULT_CONFIG\<lparr> forceEnv := Some ''staging'', autoDetectEnv := Some False \<rparr>"

text \<open>Partial configurations: \<^verbatim>\<open>{size: 'large'}\<close>, \<^verbatim>\<open>{size: undefined}\<close>.\<close>

definition largeSize :: EnvFlagConfig where
  "largeSize = noConfig\<lparr> opt_size := Some (Some Large) \<rparr>"

definition undefinedSize :: EnvFlagConfig where
  "undefinedSize = noConfig\<lparr> opt_size := Some None \<rparr>"

section \<open>Facts about the resolver\<close>

lemmas resolver_eval =
  getCurrentEnvironment_def detectEnvironment_def getCustomEnv_def getNodeEnv_def
  customEnvVars_def truthy_def truthy_flag_def js_or_def or_empty_def
  isValidEnvironmentString_def
  str_includes_def sublist_code Let_def DEFAULT_CONFIG_def browserHost_def

lemma truthy_flag_iff [simp]: "truthy_flag v = (v = Some True)"
  by (cases v) (simp_all add: truthy_flag_def)

lemma valid_nonempty: "isValidEnvironmentString e \<Longrightarrow> e \<noteq> []"
  by (auto simp: isValidEnvironmentString_def)

lemma str_includes_sublist: "str_includes s x \<longleftrightarrow> (\<exists>pre post. s = pre @ x @ post)"
  by (simp add: str_includes_def sublist_def)

lemma customEnvLoop_find:
  "customEnvLoop env vars = find isValidEnvironmentString (List.map_filter env vars)"
  by (induction vars)
     (auto simp: List.map_filter_simps truthy_def or_empty_def Let_def valid_nonempty
           split: option.splits)

lemma customEnvLoop_cong:
  "map env vars = map env' vars \<Longrightarrow> customEnvLoop env vars = customEnvLoop env' vars"
  by (induction vars) (auto simp: Let_def)

lemma customEnvLoop_valid:
  "customEnvLoop env vars = Some v \<Longrightarrow> isValidEnvironmentString v"
  by (induction vars) (auto simp: Let_def split: if_splits)

lemma getCustomEnv_spec: "getCustomEnv h = or_empty (spec_custom_signal h)"
  by (auto simp: getCustomEnv_def spec_custom_signal_def spec_custom_match_def
        customEnvLoop_find or_empty_def split: option.splits)

lemma getCustomEnv_cong:
  assumes "custom_vars_of h' = custom_vars_of h"
  shows "getCustomEnv h' = getCustomEnv h"
proof -
  have m: "(case import_meta_env h' of None \<Rightarrow> None
            | Some env \<Rightarrow> customEnvLoop env customEnvVars) =
           (case import_meta_env h of None \<Rightarrow> None
            | Some env \<Rightarrow> customEnvLoop env customEnvVars)"
    using assms unfolding custom_vars_of_def
    by (cases "import_meta_env h"; cases "import_meta_env h'")
       (auto intro: customEnvLoop_cong)
  have p: "(case process_env h' of None \<Rightarrow> None
            | Some env \<Rightarrow> customEnvLoop env customEnvVars) =
           (case process_env h of None \<Rightarrow> None
            | Some env \<Rightarrow> customEnvLoop env customEnvVars)"
    using assms unfolding custom_vars_of_def
    by (cases "process_env h"; cases "process_env h'") (auto intro: customEnvLoop_cong)
  show ?thesis
    unfolding getCustomEnv_def m p ..
qed

lemma getNodeEnv_cong:
  "node_vars_of h' = node_vars_of h \<Longrightarrow> getNodeEnv h' = getNodeEnv h"
  unfolding getNodeEnv_def node_vars_of_def
  by (cases "import_meta_env h"; cases "import_meta_env h'";
      cases "process_env h"; cases "process_env h'") auto

lemma getCustomEnv_valid: "getCustomEnv h = [] \<or> isValidEnvironmentString (getCustomEnv h)"
  by (auto simp: getCustomEnv_def split: option.splits dest: customEnvLoop_valid)

lemma getNodeEnv_valid: "getNodeEnv h = [] \<or> isValidEnvironmentString (getNodeEnv h)"
  by (auto simp: getNodeEnv_def Let_def)

lemma getCustomEnv_hostname [simp]:
  "getCustomEnv (h\<lparr> location_hostname := x \<rparr>) = getCustomEnv h"
  by (rule getCustomEnv_cong) (simp add: custom_vars_of_def)

lemma getNodeEnv_hostname [simp]:
  "getNodeEnv (h\<lparr> location_hostname := x \<rparr>) = getNodeEnv h"
  by (rule getNodeEnv_cong) (simp add: node_vars_of_def)

lemma detectEnvironment_hostname:
  assumes "window_defined h" and "navigator_defined h"
    and "getCustomEnv h = []" and "getNodeEnv h = []"
  shows "detectEnvironment h =
     (let hostname = or_empty (location_hostname h)
      in if str_includes hostname ''prod'' \<or>
            (\<not> str_includes hostname ''localhost'' \<and>
             \<not> str_includes hostname ''127.0.0.1'' \<and>
             \<not> str_includes hostname ''dev'' \<and>
             \<not> str_includes hostname ''staging'' \<and>
             \<not> str_includes hostname ''test'' \<and>
             length hostname > 0)
           then Inr ''production''
         else if str_includes hostname ''staging'' \<or> str_includes hostname ''stage''
           then Inr ''staging''
         else if str_includes hostname ''test'' then Inr ''test''
         else Inr ''development'')"
  using assms by (simp add: detectEnvironment_def Let_def)

lemma getCurrentEnvironment_detect:
  "forceEnv c = None \<Longrightarrow> autoDetectEnv c = Some True \<Longrightarrow>
   getCurrentEnvironment c h = detectEnvironment h"
  by (simp add: getCurrentEnvironment_def truthy_def)

lemma getCurrentEnvironment_returns:
  assumes "window_defined h" and "navigator_defined h"
  shows "\<exists>env. getCurrentEnvironment c h = Inr env"
  using assms by (simp add: getCurrentEnvironment_def detectEnvironment_def Let_def)

lemma getCurrentEnvironment_index_ts_returns:
  assumes "window_defined h" and "navigator_defined h"
  shows "\<exists>env. getCurrentEnvironment_index_ts c h = Inr env"
  using assms
  by (simp add: getCurrentEnvironment_index_ts_def detectEnvironment_index_ts_def Let_def)

text \<open>
  A hostname whose only marker is "stage" falls into the production branch, although
  the staging branch tests for "stage".
\<close>

lemma stage_only_is_production:
  assumes "forceEnv c = None" and "autoDetectEnv c = Some True"
    and "window_defined h" and "navigator_defined h"
    and "getCustomEnv h = []" and "getNodeEnv h = []"
    and "stage_only (or_empty (location_hostname h))"
  shows "getCurrentEnvironment c h = Inr ''production''"
proof -
  have "or_empty (location_hostname h) \<noteq> []"
    using assms(7) by (auto simp: stage_only_def str_includes_def)
  then show ?thesis
    using assms(7) detectEnvironment_hostname [OF assms(3-6)]
    by (simp add: getCurrentEnvironment_detect [OF assms(1,2)] Let_def stage_only_def)
qed

text \<open>Without a window, detection raises; the public method does not guard it.\<close>

lemma getCurrentEnvironment_no_window:
  "forceEnv c = None \<Longrightarrow> autoDetectEnv c = Some True \<Longrightarrow> \<not> window_defined h \<Longrightarrow>
   getCurrentEnvironment c h = Inl (ReferenceError ''window'')"
  by (simp add: getCurrentEnvironment_def truthy_def detectEnvironment_def)

lemma detectEnvironment_index_ts_hostname:
  assumes "window_defined h" and "navigator_defined h"
    and "\<not> isValidEnvironmentString (nodeEnv_index_ts h)"
  shows "detectEnvironment_index_ts h =
     (let hostname = or_empty (location_hostname h)
      in if str_includes hostname ''prod'' \<or>
            (\<not> str_includes hostname ''localhost'' \<and>
             \<not> str_includes hostname ''127.0.0.1'' \<and>
             \<not> str_includes hostname ''dev'' \<and>
             \<not> str_includes hostname ''staging'')
           then Inr ''production''
         else if str_includes hostname ''staging'' \<or> str_includes hostname ''stage''
           then Inr ''staging''
         else if str_includes hostname ''test'' then Inr ''test''
         else Inr ''development'')"
proof -
  have "nodeEnv_index_ts h \<noteq> ''production''" and "nodeEnv_index_ts h \<noteq> ''staging''"
    and "nodeEnv_index_ts h \<noteq> ''test''"
    using assms(3) by (auto simp: isValidEnvironmentString_def)
  then show ?thesis
    using assms(1,2) by (simp add: detectEnvironment_index_ts_def nodeEnv_index_ts_def Let_def)
qed

lemma getCurrentEnvironment_index_ts_detect:
  "forceEnv c = None \<Longrightarrow> autoDetectEnv c = Some True \<Longrightarrow>
   getCurrentEnvironment_index_ts c h = detectEnvironment_index_ts h"
  by (simp add: getCurrentEnvironment_index_ts_def truthy_def)

text \<open>
  The five hostnames on the resolver with custom variables, for every page without a
  matching environment variable.
\<close>

lemma five_hostnames:
  assumes "forceEnv c = None" and "autoDetectEnv c = Some True"
    and "window_defined h" and "navigator_defined h"
    and "getCustomEnv h = []" and "getNodeEnv h = []"
  shows "getCurrentEnvironment c (h\<lparr> location_hostname := Some ''staging.example.com'' \<rparr>) =
           Inr ''staging''"
    and "getCurrentEnvironment c (h\<lparr> location_hostname := Some ''my-test-site.io'' \<rparr>) =
           Inr ''test''"
    and "getCurrentEnvironment c (h\<lparr> location_hostname := Some ''app.example.com'' \<rparr>) =
           Inr ''production''"
    and "getCurrentEnvironment c (h\<lparr> location_hostname := Some ''localhost'' \<rparr>) =
           Inr ''development''"
    and "getCurrentEnvironment c (h\<lparr> location_hostname := Some [] \<rparr>) =
           Inr ''development''"
proof -
  have "detectEnvironment (h\<lparr> location_hostname := Some hn \<rparr>) =
     (if str_includes hn ''prod'' \<or>
         (\<not> str_includes hn ''localhost'' \<and> \<not> str_includes hn ''127.0.0.1'' \<and>
          \<not> str_includes hn ''dev'' \<and> \<not> str_includes hn ''staging'' \<and>
          \<not> str_includes hn ''test'' \<and> length hn > 0)
        then Inr ''production''
      else if str_includes hn ''staging'' \<or> str_includes hn ''stage'' then Inr ''staging''
      else if str_includes hn ''test'' then Inr ''test''
      else Inr ''development'')" for hn
    using assms(3-6)
      detectEnvironment_hostname [of "h\<lparr> location_hostname := Some hn \<rparr>"]
    by (simp add: or_empty_def Let_def)
  then show
    "getCurrentEnvironment c (h\<lparr> location_hostname := Some ''staging.example.com'' \<rparr>) =
       Inr ''staging''"
    "getCurrentEnvironment c (h\<lparr> location_hostname := Some ''my-test-site.io'' \<rparr>) =
       Inr ''test''"
    "getCurrentEnvironment c (h\<lparr> location_hostname := Some ''app.example.com'' \<rparr>) =
       Inr ''production''"
    "getCurrentEnvironment c (h\<lparr> location_hostname := Some ''localhost'' \<rparr>) =
       Inr ''development''"
    "getCurrentEnvironment c (h\<lparr> location_hostname := Some [] \<rparr>) =
       Inr ''development''"
    by (simp_all add: getCurrentEnvironment_detect [OF assms(1,2)] str_includes_def
          sublist_code)
qed

text \<open>
  The resolver of src/index.ts has neither "test" nor the emptiness check in its
  production branch.
\<close>

lemma index_ts_hostnames:
  "getCurrentEnvironment_index_ts DEFAULT_CONFIG_index_ts
     (browserHost ''my-test-site.io'' None None) = Inr ''production''"
  "getCurrentEnvironment_index_ts DEFAULT_CONFIG_index_ts
     (browserHost [] None None) = Inr ''production''"
  "getCurrentEnvironment_index_ts DEFAULT_CONFIG_index_ts
     (browserHost ''staging.example.com'' None None) = Inr ''staging''"
  by (simp_all add: getCurrentEnvironment_index_ts_def detectEnvironment_index_ts_def
        DEFAULT_CONFIG_index_ts_def browserHost_def truthy_def or_empty_def str_includes_def
        sublist_code Let_def)

section \<open>Facts about the configuration\<close>

lemma assignField_defined:
  "old \<noteq> None \<Longrightarrow> new \<noteq> Some None \<Longrightarrow> assignField old new \<noteq> None"
  by (cases new) (auto simp: assignField_def)

section \<open>Facts about the lifecycle\<close>

lemma updateElement_fields [simp]:
  "body (updateElement el f s) = body s"
  "flagElement (updateElement el f s) = flagElement s"
  "config (updateElement el f s) = config s"
  "eventListeners (updateElement el f s) = eventListeners s"
  "registered (updateElement el f s) = registered s"
  "animationFrames (updateElement el f s) = animationFrames s"
  "nextRef (updateElement el f s) = nextRef s"
  by (simp_all add: updateElement_def)

lemma setAttribute_fields [simp]:
  "body (setAttribute el k v s) = body s"
  "flagElement (setAttribute el k v s) = flagElement s"
  "config (setAttribute el k v s) = config s"
  "eventListeners (setAttribute el k v s) = eventListeners s"
  "registered (setAttribute el k v s) = registered s"
  "animationFrames (setAttribute el k v s) = animationFrames s"
  "nextRef (setAttribute el k v s) = nextRef s"
  by (simp_all add: setAttribute_def)

lemma addEventListener_fields [simp]:
  "body (addEventListener el ev hdl s) = body s"
  "flagElement (addEventListener el ev hdl s) = flagElement s"
  "config (addEventListener el ev hdl s) = config s"
  "eventListeners (addEventListener el ev hdl s) = eventListeners s"
  "animationFrames (addEventListener el ev hdl s) = animationFrames s"
  "nextRef (addEventListener el ev hdl s) = nextRef s"
  by (simp_all add: addEventListener_def)

lemma removeEventListener_fields [simp]:
  "body (removeEventListener el ev hdl s) = body s"
  "flagElement (removeEventListener el ev hdl s) = flagElement s"
  "config (removeEventListener el ev hdl s) = config s"
  "eventListeners (removeEventListener el ev hdl s) = eventListeners s"
  "animationFrames (removeEventListener el ev hdl s) = animationFrames s"
  "nextRef (removeEventListener el ev hdl s) = nextRef s"
  by (simp_all add: removeEventListener_def)

lemma applyStyles_fields [simp]:
  "body (snd (applyStyles env s)) = body s"
  "flagElement (snd (applyStyles env s)) = flagElement s"
  "config (snd (applyStyles env s)) = config s"
  "eventListeners (snd (applyStyles env s)) = eventListeners s"
  "registered (snd (applyStyles env s)) = registered s"
  "animationFrames (snd (applyStyles env s)) = animationFrames s"
  "nextRef (snd (applyStyles env s)) = nextRef s"
  by (simp_all add: applyStyles_def Let_def split: option.splits sum.splits)

lemma applyStyles_ok:
  "size_cfg (config s) \<noteq> None \<Longrightarrow> fst (applyStyles env s) = Returned"
  by (auto simp: applyStyles_def getEnvironmentStyles_def getSizeStyles_def Let_def
           split: option.splits sum.splits Size.splits)

text \<open>With the size undefined, styling raises before it has changed anything.\<close>

lemma applyStyles_undefined_size:
  "flagElement s \<noteq> None \<Longrightarrow> size_cfg (config s) = None \<Longrightarrow>
   applyStyles env s = (Threw (TypeError ''fontSize''), s)"
  by (auto simp: applyStyles_def getEnvironmentStyles_def getSizeStyles_def)

lemma applyStyles_index_ts_fields [simp]:
  "body (snd (applyStyles_index_ts env s)) = body s"
  "flagElement (snd (applyStyles_index_ts env s)) = flagElement s"
  "config (snd (applyStyles_index_ts env s)) = config s"
  "eventListeners (snd (applyStyles_index_ts env s)) = eventListeners s"
  "registered (snd (applyStyles_index_ts env s)) = registered s"
  "animationFrames (snd (applyStyles_index_ts env s)) = animationFrames s"
  "nextRef (snd (applyStyles_index_ts env s)) = nextRef s"
  by (simp_all add: applyStyles_index_ts_def Let_def split: option.splits sum.splits)

lemma applyStyles_index_ts_ok:
  "size_cfg (config s) \<noteq> None \<Longrightarrow> fst (applyStyles_index_ts env s) = Returned"
  by (auto simp: applyStyles_index_ts_def getEnvironmentStyles_def getSizeStyles_def Let_def
           split: option.splits sum.splits Size.splits)

lemma attachEventListeners_fields [simp]:
  "body (attachEventListeners s) = body s"
  "flagElement (attachEventListeners s) = flagElement s"
  "config (attachEventListeners s) = config s"
  "animationFrames (attachEventListeners s) = animationFrames s"
  "nextRef (attachEventListeners s) = nextRef s"
  by (simp_all add: attachEventListeners_def attachOne_def Let_def split: option.splits)

lemma attachEventListeners_registry:
  "flagElement s = Some el \<Longrightarrow>
   eventListeners (attachEventListeners s) =
     eventListeners s @
       [(el, ''click'', HandleClick), (el, ''mouseenter'', HandleMouseEnter),
        (el, ''mouseleave'', HandleMouseLeave), (el, ''keydown'', HandleKeydown)]"
  by (simp add: attachEventListeners_def attachOne_def Let_def)

lemma fold_removeEventListener_fields:
  "body (fold (\<lambda>(element, event, handler). removeEventListener element event handler)
           ls s) = body s \<and>
   flagElement (fold (\<lambda>(element, event, handler). removeEventListener element event handler)
           ls s) = flagElement s \<and>
   config (fold (\<lambda>(element, event, handler). removeEventListener element event handler)
           ls s) = config s \<and>
   animationFrames (fold (\<lambda>(element, event, handler).
           removeEventListener element event handler) ls s) = animationFrames s \<and>
   nextRef (fold (\<lambda>(element, event, handler). removeEventListener element event handler)
           ls s) = nextRef s"
  by (induction ls arbitrary: s) auto

lemma removeEventListeners_fields [simp]:
  "body (removeEventListeners s) = body s"
  "flagElement (removeEventListeners s) = flagElement s"
  "config (removeEventListeners s) = config s"
  "animationFrames (removeEventListeners s) = animationFrames s"
  "nextRef (removeEventListeners s) = nextRef s"
  "eventListeners (removeEventListeners s) = []"
  by (simp_all add: removeEventListeners_def fold_removeEventListener_fields)

lemma removeEventListener_registered:
  "registered (removeEventListener el ev hdl s) =
     filter (\<lambda>l. l \<noteq> (el, ev, hdl)) (registered s)"
  by (simp add: removeEventListener_def removeAll_filter_not_eq) (metis)

lemma fold_removeEventListener_registered:
  "registered (fold (\<lambda>(element, event, handler). removeEventListener element event handler)
                ls s) =
     filter (\<lambda>l. l \<notin> set ls) (registered s)"
proof (induction ls arbitrary: s)
  case Nil
  then show ?case by simp
next
  case (Cons l ls)
  obtain el ev hdl where l: "l = (el, ev, hdl)" by (cases l) auto
  have "filter (\<lambda>x. x \<notin> set ls) (filter (\<lambda>x. x \<noteq> l) (registered s)) =
        filter (\<lambda>x. x \<notin> set (l # ls)) (registered s)"
    by (auto intro: filter_cong)
  then show ?case
    by (simp add: Cons.IH l removeEventListener_registered)
qed

text \<open>Teardown takes off the elements exactly the registrations the component recorded.\<close>

lemma removeEventListeners_registered:
  "registered (removeEventListeners s) =
     filter (\<lambda>l. l \<notin> set (eventListeners s)) (registered s)"
  by (simp add: removeEventListeners_def fold_removeEventListener_registered)

lemma inv_cong:
  "body s' = body s \<Longrightarrow> flagElement s' = flagElement s \<Longrightarrow>
   indicator_inv s' = indicator_inv s"
  by (simp add: indicator_inv_def indicatorCount_def)

lemma inv_body_empty:
  "indicatorCount s = 0 \<Longrightarrow> body s' = body s \<Longrightarrow> indicator_inv s'"
  by (simp add: indicator_inv_def indicatorCount_def)

lemma inv_count: "indicator_inv s \<Longrightarrow> indicatorCount s \<le> 1"
  by (cases "flagElement s") (auto simp: indicator_inv_def indicatorCount_def)

lemma count0_body: "indicatorCount s = 0 \<Longrightarrow> body s \<noteq> None \<Longrightarrow> body s = Some []"
  by (cases "body s") (simp_all add: indicatorCount_def)

lemma removeEventListeners_inv:
  "indicator_inv (removeEventListeners s) = indicator_inv s"
  by (rule inv_cong) simp_all

lemma removeFlagElement_inv:
  "indicator_inv s \<Longrightarrow> indicator_inv (snd (removeFlagElement h s))"
  by (cases "flagElement s"; cases "body s")
     (auto simp: removeFlagElement_def indicator_inv_def indicatorCount_def removeChild_def)

lemma removeFlagElement_clears:
  assumes "indicator_inv s" and "document_defined h"
  shows "fst (removeFlagElement h s) = Returned"
    and "indicatorCount (snd (removeFlagElement h s)) = 0"
    and "animationFrames (snd (removeFlagElement h s)) = animationFrames s"
    and "(body (snd (removeFlagElement h s)) = None) = (body s = None)"
  using assms
  by (cases "flagElement s"; cases "body s";
      auto simp: removeFlagElement_def indicator_inv_def removeChild_def indicatorCount_def)+

lemma removeFlagElement_fields [simp]:
  "config (snd (removeFlagElement h s)) = config s"
  "eventListeners (snd (removeFlagElement h s)) = eventListeners s"
  "registered (snd (removeFlagElement h s)) = registered s"
  "nextRef (snd (removeFlagElement h s)) = nextRef s"
  by (auto simp: removeFlagElement_def split: option.splits)

lemma destroy_inv: "indicator_inv s \<Longrightarrow> indicator_inv (snd (destroy h s))"
  by (simp add: destroy_def removeFlagElement_inv removeEventListeners_inv)

lemma destroy_fields [simp]:
  "eventListeners (snd (destroy h s)) = []"
  "config (snd (destroy h s)) = config s"
  "nextRef (snd (destroy h s)) = nextRef s"
  by (simp_all add: destroy_def)

lemma destroy_registered:
  "registered (snd (destroy h s)) =
     filter (\<lambda>l. l \<notin> set (eventListeners s)) (registered s)"
  by (simp add: destroy_def removeEventListeners_registered)

lemma destroy_clears:
  assumes "indicator_inv s" and "document_defined h"
  shows "fst (destroy h s) = Returned"
    and "indicatorCount (snd (destroy h s)) = 0"
    and "animationFrames (snd (destroy h s)) = animationFrames s"
    and "(body (snd (destroy h s)) = None) = (body s = None)"
  using removeFlagElement_clears [of "removeEventListeners s" h] assms
  by (simp_all add: destroy_def removeEventListeners_inv)

text \<open>
  An element that is held but not yet in the document survives \<^verbatim>\<open>destroy\<close>: the
  field is cleared only inside the branch that removes the element from the body.
\<close>

lemma destroy_not_attached:
  assumes "flagElement s = Some el" and "body s = Some b" and "el \<notin> set b"
    and "document_defined h"
  shows "destroy h s = (Returned, removeEventListeners s)"
  using assms by (simp add: destroy_def removeFlagElement_def)

lemma createFlag_fields [simp]:
  "body (snd (createFlag h s)) = body s"
  "config (snd (createFlag h s)) = config s"
  by (auto simp: createFlag_def createElement_def Let_def and_then_def
           split: sum.splits outcome.splits)

lemma createFlag_ok:
  assumes "getCurrentEnvironment (config s) h = Inr env" and "document_defined h"
    and "requestAnimationFrame_defined h" and "size_cfg (config s) \<noteq> None"
  shows "fst (createFlag h s) = Returned"
    and "flagElement (snd (createFlag h s)) = Some (nextRef s)"
    and "animationFrames (snd (createFlag h s)) = animationFrames s @ [AppendFlagElement]"
    and "eventListeners (snd (createFlag h s)) =
           eventListeners s @
             [(nextRef s, ''click'', HandleClick),
              (nextRef s, ''mouseenter'', HandleMouseEnter),
              (nextRef s, ''mouseleave'', HandleMouseLeave),
              (nextRef s, ''keydown'', HandleKeydown)]"
  using assms
  by (simp_all add: createFlag_def createElement_def Let_def and_then_def applyStyles_ok
        attachEventListeners_registry)

text \<open>
  Without \<^verbatim>\<open>requestAnimationFrame\<close> the last statement of \<^verbatim>\<open>createFlag\<close> raises, after the
  element has been created and its listeners attached.
\<close>

lemma createFlag_no_frame:
  assumes "getCurrentEnvironment (config s) h = Inr env" and "document_defined h"
    and "\<not> requestAnimationFrame_defined h" and "size_cfg (config s) \<noteq> None"
  shows "fst (createFlag h s) = Threw (ReferenceError ''requestAnimationFrame'')"
  using assms by (simp add: createFlag_def createElement_def Let_def and_then_def applyStyles_ok)

text \<open>
  With the size undefined \<^verbatim>\<open>createFlag\<close> raises in \<^verbatim>\<open>applyStyles\<close>, after the element has
  been created and before any listener is attached.
\<close>

lemma createFlag_undefined_size:
  assumes "getCurrentEnvironment (config s) h = Inr env" and "document_defined h"
    and "size_cfg (config s) = None"
  shows "fst (createFlag h s) = Threw (TypeError ''fontSize'')"
    and "flagElement (snd (createFlag h s)) = Some (nextRef s)"
    and "eventListeners (snd (createFlag h s)) = eventListeners s"
  using assms
  by (simp_all add: createFlag_def createElement_def Let_def and_then_def
        applyStyles_undefined_size)

lemma createFlag_index_ts_fields [simp]:
  "body (snd (createFlag_index_ts h s)) = body s"
  "config (snd (createFlag_index_ts h s)) = config s"
  by (auto simp: createFlag_index_ts_def createElement_def Let_def and_then_def
           split: sum.splits outcome.splits)

lemma createFlag_index_ts_threw:
  "fst (createFlag_index_ts h s) \<noteq> Returned \<Longrightarrow>
   animationFrames (snd (createFlag_index_ts h s)) = animationFrames s"
  by (auto simp: createFlag_index_ts_def createElement_def Let_def and_then_def
           split: sum.splits if_splits outcome.splits)

lemma createFlag_index_ts_no_frame:
  assumes "getCurrentEnvironment_index_ts (config s) h = Inr env" and "document_defined h"
    and "\<not> requestAnimationFrame_defined h" and "size_cfg (config s) \<noteq> None"
  shows "fst (createFlag_index_ts h s) = Threw (ReferenceError ''requestAnimationFrame'')"
    and "flagElement (snd (createFlag_index_ts h s)) = Some (nextRef s)"
    and "eventListeners (snd (createFlag_index_ts h s)) =
           eventListeners s @
             [(nextRef s, ''click'', HandleClick),
              (nextRef s, ''mouseenter'', HandleMouseEnter),
              (nextRef s, ''mouseleave'', HandleMouseLeave),
              (nextRef s, ''keydown'', HandleKeydown)]"
    and "animationFrames (snd (createFlag_index_ts h s)) = animationFrames s"
  using assms
  by (simp_all add: createFlag_index_ts_def createElement_def Let_def and_then_def
        applyStyles_index_ts_ok attachEventListeners_registry)

lemma init_eq:
  assumes "indicator_inv s" and "isValidEnvironment h" and "enabled (config s) = Some True"
  shows "init h s = createFlag h (snd (destroy h s))"
proof -
  have "document_defined h"
    using assms(2) by (simp add: isValidEnvironment_def)
  then show ?thesis
    using assms destroy_clears(1) [OF assms(1)] by (simp add: init_def and_then_def)
qed

lemma init_inv: "indicator_inv s \<Longrightarrow> indicator_inv (snd (init h s))"
proof -
  assume inv: "indicator_inv s"
  show ?thesis
  proof (cases "isValidEnvironment h \<and> enabled (config s) = Some True")
    case False
    then show ?thesis using inv by (auto simp: init_def)
  next
    case True
    then have d: "document_defined h" by (simp add: isValidEnvironment_def)
    have "indicator_inv (snd (createFlag h (snd (destroy h s))))"
      using destroy_clears(2) [OF inv d] by (rule inv_body_empty) simp
    then show ?thesis
      using True inv by (simp add: init_eq)
  qed
qed

lemma init_config [simp]: "config (snd (init h s)) = config s"
  by (auto simp: init_def and_then_def split: outcome.splits)

lemma init_disabled: "enabled (config s) \<noteq> Some True \<Longrightarrow> init h s = (Returned, s)"
  by (simp add: init_def)

lemma init_browser:
  assumes inv: "indicator_inv s"
    and h: "window_defined h" "document_defined h" "navigator_defined h"
      "requestAnimationFrame_defined h"
    and en: "enabled (config s) = Some True" and sz: "size_cfg (config s) \<noteq> None"
    and b: "body s \<noteq> None"
  shows "fst (init h s) = Returned"
    and "flagElement (snd (init h s)) = Some (nextRef s)"
    and "body (snd (init h s)) = Some []"
    and "animationFrames (snd (init h s)) \<noteq> []"
proof -
  let ?d = "snd (destroy h s)"
  obtain env where env: "getCurrentEnvironment (config ?d) h = Inr env"
    using getCurrentEnvironment_returns [OF h(1,3)] by blast
  have i: "init h s = createFlag h ?d"
    using inv h(1,2) en by (simp add: init_eq isValidEnvironment_def)
  have bd: "body ?d = Some []"
    using destroy_clears(2,4) [OF inv h(2)] b by (simp add: count0_body)
  have szd: "size_cfg (config ?d) \<noteq> None"
    using sz by simp
  show "fst (init h s) = Returned"
    unfolding i by (rule createFlag_ok(1) [OF env h(2) h(4) szd])
  show "flagElement (snd (init h s)) = Some (nextRef s)"
    unfolding i by (simp add: createFlag_ok(2) [OF env h(2) h(4) szd])
  show "body (snd (init h s)) = Some []"
    unfolding i by (simp add: bd)
  show "animationFrames (snd (init h s)) \<noteq> []"
    unfolding i by (simp add: createFlag_ok(3) [OF env h(2) h(4) szd])
qed

lemma try_catch_simps [simp]:
  "fst (try_catch r) = Returned"
  "snd (try_catch r) = snd r"
  by (cases "fst r"; simp add: try_catch_def)+

lemma init_index_ts_disabled:
  "enabled (config s) \<noteq> Some True \<Longrightarrow> init_index_ts h s = (Returned, s)"
  by (simp add: init_index_ts_def init_index_ts_block_def try_catch_def)

lemma init_index_ts_block_eq:
  "isValidEnvironment h \<Longrightarrow> enabled (config s) = Some True \<Longrightarrow>
   init_index_ts_block h s = createFlag_index_ts h (snd (destroy h s))"
  by (simp add: init_index_ts_block_def and_then_def destroy_index_ts_def destroy_def)

lemma runCallback_fields [simp]:
  "flagElement (runCallback cb s) = flagElement s"
  "config (runCallback cb s) = config s"
  "animationFrames (runCallback cb s) = animationFrames s"
  "(body (runCallback cb s) = None) = (body s = None)"
  by (cases cb; cases "flagElement s"; cases "body s"; simp add: runCallback_def)+

lemma runCallback_inv: "indicator_inv s \<Longrightarrow> indicator_inv (runCallback cb s)"
  by (cases cb; cases "flagElement s"; cases "body s")
     (auto simp: runCallback_def indicator_inv_def indicatorCount_def appendChild_def)

lemma runCallback_none: "flagElement s = None \<Longrightarrow> runCallback cb s = s"
  by (cases cb) (simp add: runCallback_def)

lemma runCallback_inserts:
  "indicator_inv s \<Longrightarrow> flagElement s = Some el \<Longrightarrow> body s = Some b \<Longrightarrow>
   body (runCallback cb s) = Some [el]"
  by (cases cb)
     (auto simp: runCallback_def indicator_inv_def indicatorCount_def appendChild_def)

lemma fold_runCallback_fields [simp]:
  "flagElement (fold runCallback cbs s) = flagElement s"
  "config (fold runCallback cbs s) = config s"
  "animationFrames (fold runCallback cbs s) = animationFrames s"
  "(body (fold runCallback cbs s) = None) = (body s = None)"
  by (induction cbs arbitrary: s) simp_all

lemma fold_runCallback_inv:
  "indicator_inv s \<Longrightarrow> indicator_inv (fold runCallback cbs s)"
  by (induction cbs arbitrary: s) (simp_all add: runCallback_inv)

lemma fold_runCallback_none:
  "flagElement s = None \<Longrightarrow> fold runCallback cbs s = s"
  by (induction cbs arbitrary: s) (simp_all add: runCallback_none)

lemma fold_runCallback_inserts:
  "indicator_inv s \<Longrightarrow> flagElement s = Some el \<Longrightarrow> body s = Some b \<Longrightarrow> cbs \<noteq> [] \<Longrightarrow>
   body (fold runCallback cbs s) = Some [el]"
proof (induction cbs arbitrary: s b)
  case Nil
  then show ?case by simp
next
  case (Cons cb cbs)
  let ?s = "runCallback cb s"
  have b: "body ?s = Some [el]"
    using Cons.prems(1-3) by (rule runCallback_inserts)
  have f: "flagElement ?s = Some el"
    using Cons.prems(2) by simp
  have i: "indicator_inv ?s"
    using b f by (simp add: indicator_inv_def)
  show ?case
  proof (cases cbs)
    case Nil
    then show ?thesis using b by simp
  next
    case (Cons c cs)
    then show ?thesis using Cons.IH [OF i f b] by simp
  qed
qed

lemma animationFrame_inv: "indicator_inv s \<Longrightarrow> indicator_inv (animationFrame s)"
proof -
  assume "indicator_inv s"
  then have "indicator_inv (s\<lparr> animationFrames := [] \<rparr>)"
    by (simp add: indicator_inv_def indicatorCount_def)
  then show ?thesis
    unfolding animationFrame_def by (rule fold_runCallback_inv)
qed

lemma animationFrame_fields [simp]:
  "flagElement (animationFrame s) = flagElement s"
  "config (animationFrame s) = config s"
  "animationFrames (animationFrame s) = []"
  "(body (animationFrame s) = None) = (body s = None)"
  by (simp_all add: animationFrame_def)

lemma animationFrame_absent:
  "flagElement s = None \<or> animationFrames s = [] \<Longrightarrow> body (animationFrame s) = body s"
  by (auto simp: animationFrame_def fold_runCallback_none)

lemma animationFrame_inserts:
  assumes "indicator_inv s" and "flagElement s = Some el" and "body s = Some b"
    and "animationFrames s \<noteq> []"
  shows "body (animationFrame s) = Some [el]"
  unfolding animationFrame_def
  by (rule fold_runCallback_inserts [where b = b])
     (use assms in \<open>simp_all add: indicator_inv_def indicatorCount_def\<close>)

lemma maybeFrame_inv: "indicator_inv s \<Longrightarrow> indicator_inv (maybeFrame tick s)"
  by (simp add: maybeFrame_def animationFrame_inv)

lemma maybeFrame_fields [simp]:
  "config (maybeFrame tick s) = config s"
  "(body (maybeFrame tick s) = None) = (body s = None)"
  by (simp_all add: maybeFrame_def)

text \<open>The invariant holds when the component is constructed and every operation keeps it.\<close>

lemma new_EnvFlag_inv:
  "indicatorCount (new_EnvFlag p d) = 0 \<Longrightarrow> indicator_inv (new_EnvFlag p d)"
  by (simp add: indicator_inv_def)

lemma updateConfig_inv: "indicator_inv s \<Longrightarrow> indicator_inv (snd (updateConfig h p s))"
  unfolding updateConfig_def
  by (rule init_inv) (simp add: indicator_inv_def indicatorCount_def)

lemma handlers_inv:
  assumes "indicator_inv s"
  shows "indicator_inv (snd (handleClick h s))"
    and "indicator_inv (snd (handleKeydown h key s))"
    and "indicator_inv (handleMouseEnter s)"
    and "indicator_inv (handleMouseLeave s)"
proof -
  show "indicator_inv (snd (handleClick h s))"
    using assms by (simp add: handleClick_def destroy_inv)
  show "indicator_inv (snd (handleKeydown h key s))"
    using assms by (simp add: handleKeydown_def destroy_inv)
  have "indicator_inv (handleMouseEnter s) = indicator_inv s"
    by (rule inv_cong) (simp_all add: handleMouseEnter_def split: option.splits)
  then show "indicator_inv (handleMouseEnter s)"
    using assms by simp
  have "indicator_inv (handleMouseLeave s) = indicator_inv s"
    by (rule inv_cong) (simp_all add: handleMouseLeave_def split: option.splits)
  then show "indicator_inv (handleMouseLeave s)"
    using assms by simp
qed

text \<open>So every state a component can be in satisfies the invariant.\<close>

lemma reachable_inv: "reachable s \<Longrightarrow> indicator_inv s"
proof (induction rule: reachable.induct)
  case (constructed p d)
  then show ?case by (rule new_EnvFlag_inv)
next
  case (init s h)
  then show ?case by (simp add: init_inv)
next
  case (destroy s h)
  then show ?case by (simp add: destroy_inv)
next
  case (updateConfig s h p)
  then show ?case by (simp add: updateConfig_inv)
next
  case (animationFrame s)
  then show ?case by (simp add: animationFrame_inv)
next
  case (click s h)
  then show ?case by (simp add: handlers_inv)
next
  case (keydown s h key)
  then show ?case by (simp add: handlers_inv)
next
  case (mouseEnter s)
  then show ?case by (simp add: handlers_inv)
next
  case (mouseLeave s)
  then show ?case by (simp add: handlers_inv)
qed

text \<open>
  What \<^verbatim>\<open>destroy\<close> achieves, by the moment of the animation frame. After the frame,
  \<^verbatim>\<open>destroy\<close> removes the element and clears the field; before it, the element is only
  held, \<^verbatim>\<open>destroy\<close> leaves the field set, and the frame then inserts the element.
\<close>

lemma destroy_after_frame:
  assumes "indicator_inv s" and "document_defined h"
  shows "indicatorCount (snd (destroy h (animationFrame s))) = 0"
    and "indicatorCount (animationFrame (snd (destroy h (animationFrame s)))) = 0"
proof -
  let ?a = "animationFrame s"
  have ia: "indicator_inv ?a"
    using assms(1) by (rule animationFrame_inv)
  show c: "indicatorCount (snd (destroy h ?a)) = 0"
    using ia assms(2) by (rule destroy_clears(2))
  have "animationFrames (snd (destroy h ?a)) = []"
    using destroy_clears(3) [OF ia assms(2)] by simp
  then have "body (animationFrame (snd (destroy h ?a))) = body (snd (destroy h ?a))"
    by (simp add: animationFrame_absent)
  then show "indicatorCount (animationFrame (snd (destroy h ?a))) = 0"
    using c by (simp add: indicatorCount_def)
qed

lemma destroy_before_frame:
  assumes inv: "indicator_inv s"
    and h: "window_defined h" "document_defined h" "navigator_defined h"
      "requestAnimationFrame_defined h"
    and en: "enabled (config s) = Some True" and sz: "size_cfg (config s) \<noteq> None"
    and b: "body s \<noteq> None"
  shows "destroy h (snd (init h s)) = (Returned, removeEventListeners (snd (init h s)))"
    and "indicatorCount (snd (destroy h (snd (init h s)))) = 0"
    and "flagElement (snd (destroy h (snd (init h s)))) = Some (nextRef s)"
    and "body (animationFrame (snd (destroy h (snd (init h s))))) = Some [nextRef s]"
proof -
  let ?i = "snd (init h s)"
  have f: "flagElement ?i = Some (nextRef s)" and bi: "body ?i = Some []"
    and fr: "animationFrames ?i \<noteq> []"
    using init_browser(2-4) [OF inv h en sz b] by simp_all
  show d: "destroy h ?i = (Returned, removeEventListeners ?i)"
    using f bi _ h(2) by (rule destroy_not_attached) simp
  show "indicatorCount (snd (destroy h ?i)) = 0"
    by (simp add: d indicatorCount_def bi)
  show "flagElement (snd (destroy h ?i)) = Some (nextRef s)"
    by (simp add: d f)
  have "indicator_inv (removeEventListeners ?i)"
    using inv by (simp add: removeEventListeners_inv init_inv)
  then show "body (animationFrame (snd (destroy h ?i))) = Some [nextRef s]"
    unfolding d snd_conv
    by (rule animationFrame_inserts [where b = "[]"]) (simp_all add: f bi fr)
qed

subsection \<open>The concrete states\<close>

lemma freshState_facts:
  "indicator_inv freshState"
  "enabled (config freshState) = Some True"
  "body freshState = Some []"
  "nextRef freshState = 0"
  "flagElement freshState = None"
  "eventListeners freshState = []"
  "registered freshState = []"
  "animationFrames freshState = []"
  "size_cfg (config freshState) \<noteq> None"
  "resolved (config freshState)"
  by (simp_all add: freshState_def new_EnvFlag_def emptyDocument_def noConfig_def assign_def
        assignField_def DEFAULT_CONFIG_def indicator_inv_def indicatorCount_def resolved_def)

lemma freshState_index_ts_facts:
  "indicator_inv freshState_index_ts"
  "enabled (config freshState_index_ts) = Some True"
  "body freshState_index_ts = Some []"
  "nextRef freshState_index_ts = 0"
  "flagElement freshState_index_ts = None"
  "eventListeners freshState_index_ts = []"
  "animationFrames freshState_index_ts = []"
  "size_cfg (config freshState_index_ts) \<noteq> None"
  by (simp_all add: freshState_index_ts_def new_EnvFlag_index_ts_def emptyDocument_def
        noConfig_def assign_def assignField_def DEFAULT_CONFIG_index_ts_def indicator_inv_def
        indicatorCount_def)

lemma disabledState_facts:
  "enabled (config disabledState) = Some False"
  "indicatorCount disabledState = 0"
  "flagElement disabledState = None"
  "animationFrames disabledState = []"
  "absent disabledState"
  "indicator_inv disabledState"
  by (simp_all add: disabledState_def new_EnvFlag_def emptyDocument_def noConfig_def assign_def
        assignField_def DEFAULT_CONFIG_def indicatorCount_def absent_def indicator_inv_def)

lemma localHost_facts:
  "window_defined localHost" "document_defined localHost" "navigator_defined localHost"
  "requestAnimationFrame_defined localHost" "isValidEnvironment localHost"
  by (simp_all add: localHost_def browserHost_def isValidEnvironment_def)

lemma noFrameHost_facts:
  "window_defined noFrameHost" "document_defined noFrameHost" "navigator_defined noFrameHost"
  "\<not> requestAnimationFrame_defined noFrameHost" "isValidEnvironment noFrameHost"
  by (simp_all add: noFrameHost_def localHost_def browserHost_def isValidEnvironment_def)

lemma shownState_facts:
  "indicator_inv shownState"
  "body shownState = Some [0]"
  "flagElement shownState = Some 0"
  "enabled (config shownState) = Some True"
proof -
  let ?i = "snd (init localHost freshState)"
  have i: "indicator_inv ?i"
    using freshState_facts(1) by (rule init_inv)
  have f: "flagElement ?i = Some 0" and b: "body ?i = Some []"
    and fr: "animationFrames ?i \<noteq> []"
    using init_browser(2-4)
            [OF freshState_facts(1) localHost_facts(1-4) freshState_facts(2,9)]
    by (simp_all add: freshState_facts)
  show "indicator_inv shownState"
    unfolding shownState_def using i by (rule animationFrame_inv)
  show "body shownState = Some [0]"
    unfolding shownState_def using i f b fr by (rule animationFrame_inserts)
  show "flagElement shownState = Some 0"
    by (simp add: shownState_def f)
  show "enabled (config shownState) = Some True"
    by (simp add: shownState_def freshState_facts)
qed

lemma switchedOffState_eq:
  "switchedOffState =
     shownState\<lparr> config := assign (config shownState)
                               (noConfig\<lparr> opt_enabled := Some (Some False) \<rparr>) \<rparr>"
  by (simp add: switchedOffState_def updateConfig_def init_def assign_def assignField_def
        noConfig_def)

lemma attachEventListeners_registered:
  "flagElement s = Some el \<Longrightarrow> registered s = [] \<Longrightarrow>
   registered (attachEventListeners s) =
     [(el, ''click'', HandleClick), (el, ''mouseenter'', HandleMouseEnter),
      (el, ''mouseleave'', HandleMouseLeave), (el, ''keydown'', HandleKeydown)]"
  by (simp add: attachEventListeners_def attachOne_def addEventListener_def Let_def)

lemma createFlag_registered:
  assumes "getCurrentEnvironment (config s) h = Inr env" and "document_defined h"
    and "requestAnimationFrame_defined h" and "size_cfg (config s) \<noteq> None"
    and "registered s = []"
  shows "registered (snd (createFlag h s)) =
           [(nextRef s, ''click'', HandleClick),
            (nextRef s, ''mouseenter'', HandleMouseEnter),
            (nextRef s, ''mouseleave'', HandleMouseLeave),
            (nextRef s, ''keydown'', HandleKeydown)]"
  using assms
  by (simp add: createFlag_def createElement_def Let_def and_then_def applyStyles_ok
        attachEventListeners_registered)

lemma freshState_init_listeners:
  "eventListeners (snd (init localHost freshState)) =
     [(0, ''click'', HandleClick), (0, ''mouseenter'', HandleMouseEnter),
      (0, ''mouseleave'', HandleMouseLeave), (0, ''keydown'', HandleKeydown)]"
  "registered (snd (init localHost freshState)) =
     eventListeners (snd (init localHost freshState))"
proof -
  let ?d = "snd (destroy localHost freshState)"
  obtain env where env: "getCurrentEnvironment (config ?d) localHost = Inr env"
    using getCurrentEnvironment_returns [OF localHost_facts(1,3)] by blast
  have i: "init localHost freshState = createFlag localHost ?d"
    using freshState_facts(1) localHost_facts(5) freshState_facts(2) by (rule init_eq)
  have r: "registered ?d = []"
    by (simp add: destroy_registered freshState_facts)
  have sz: "size_cfg (config ?d) \<noteq> None"
    by (simp add: freshState_facts)
  show e: "eventListeners (snd (init localHost freshState)) =
     [(0, ''click'', HandleClick), (0, ''mouseenter'', HandleMouseEnter),
      (0, ''mouseleave'', HandleMouseLeave), (0, ''keydown'', HandleKeydown)]"
    unfolding i
    by (simp add: createFlag_ok(4) [OF env localHost_facts(2,4) sz] freshState_facts)
  show "registered (snd (init localHost freshState)) =
     eventListeners (snd (init localHost freshState))"
    unfolding e unfolding i
    by (simp add: createFlag_registered [OF env localHost_facts(2,4) sz r] freshState_facts)
qed

lemma noFrame_init_throws:
  "fst (init noFrameHost freshState) = Threw (ReferenceError ''requestAnimationFrame'')"
proof -
  let ?d = "snd (destroy noFrameHost freshState)"
  obtain env where env: "getCurrentEnvironment (config ?d) noFrameHost = Inr env"
    using getCurrentEnvironment_returns [OF noFrameHost_facts(1,3)] by blast
  have sz: "size_cfg (config ?d) \<noteq> None"
    by (simp add: freshState_facts)
  have "init noFrameHost freshState = createFlag noFrameHost ?d"
    using freshState_facts(1) noFrameHost_facts(5) freshState_facts(2) by (rule init_eq)
  then show ?thesis
    by (simp add: createFlag_no_frame [OF env noFrameHost_facts(2,4) sz])
qed

lemma noFrame_index_ts_block:
  "fst (init_index_ts_block noFrameHost freshState_index_ts) =
     Threw (ReferenceError ''requestAnimationFrame'')"
  "flagElement (snd (init_index_ts_block noFrameHost freshState_index_ts)) = Some 0"
  "eventListeners (snd (init_index_ts_block noFrameHost freshState_index_ts)) =
     [(0, ''click'', HandleClick), (0, ''mouseenter'', HandleMouseEnter),
      (0, ''mouseleave'', HandleMouseLeave), (0, ''keydown'', HandleKeydown)]"
  "animationFrames (snd (init_index_ts_block noFrameHost freshState_index_ts)) = []"
  "body (snd (init_index_ts_block noFrameHost freshState_index_ts)) = Some []"
proof -
  let ?d = "snd (destroy noFrameHost freshState_index_ts)"
  obtain env where env: "getCurrentEnvironment_index_ts (config ?d) noFrameHost = Inr env"
    using getCurrentEnvironment_index_ts_returns [OF noFrameHost_facts(1,3)] by blast
  have sz: "size_cfg (config ?d) \<noteq> None"
    by (simp add: freshState_index_ts_facts)
  note c = createFlag_index_ts_no_frame [OF env noFrameHost_facts(2,4) sz]
  have b: "init_index_ts_block noFrameHost freshState_index_ts =
           createFlag_index_ts noFrameHost ?d"
    using noFrameHost_facts(5) freshState_index_ts_facts(2) by (rule init_index_ts_block_eq)
  have fr: "animationFrames ?d = []" and bd: "body ?d = Some []"
    using destroy_clears(2-4)
            [OF freshState_index_ts_facts(1) noFrameHost_facts(2)]
    by (simp_all add: freshState_index_ts_facts count0_body)
  show "fst (init_index_ts_block noFrameHost freshState_index_ts) =
          Threw (ReferenceError ''requestAnimationFrame'')"
    unfolding b by (rule c(1))
  show "flagElement (snd (init_index_ts_block noFrameHost freshState_index_ts)) = Some 0"
    unfolding b by (simp add: c(2) freshState_index_ts_facts)
  show "eventListeners (snd (init_index_ts_block noFrameHost freshState_index_ts)) =
     [(0, ''click'', HandleClick), (0, ''mouseenter'', HandleMouseEnter),
      (0, ''mouseleave'', HandleMouseLeave), (0, ''keydown'', HandleKeydown)]"
    unfolding b by (simp add: c(3) freshState_index_ts_facts)
  show "animationFrames (snd (init_index_ts_block noFrameHost freshState_index_ts)) = []"
    unfolding b by (simp add: c(4) fr)
  show "body (snd (init_index_ts_block noFrameHost freshState_index_ts)) = Some []"
    unfolding b by (simp add: bd)
qed

section \<open>The claims\<close>

subsection \<open>C1: the hostname heuristic\<close>

text \<open>
  Claim C1, as amended. With no override, auto-detect enabled and no
  environment-variable signal matching, resolution returns production when the
  hostname contains "prod"; otherwise it returns what the specification's heuristic
  says (staging for "staging" or "stage", else test for "test", else production for a
  non-empty hostname with none of "localhost", "127.0.0.1", "dev", "staging", "test",
  else development). In the file with custom variables this holds for every hostname
  except those whose only marker is "stage"; in src/index.ts it holds for every
  hostname except those that contain none of "prod", "localhost", "127.0.0.1", "dev",
  "staging", and contain "stage" or "test" or are empty. About the excepted hostnames
  nothing is stated.
\<close>

theorem hostname_heuristic:
  assumes "forceEnv c = None" and "autoDetectEnv c = Some True"
    and "window_defined h" and "navigator_defined h"
  shows "(getCustomEnv h = [] \<and> getNodeEnv h = [] \<and>
          \<not> stage_only (or_empty (location_hostname h)) \<longrightarrow>
            getCurrentEnvironment c h =
              Inr (if str_includes (or_empty (location_hostname h)) ''prod''
                   then ''production''
                   else spec_hostname_heuristic (or_empty (location_hostname h)))) \<and>
         (\<not> isValidEnvironmentString (nodeEnv_index_ts h) \<and>
          \<not> missed_by_index_ts (or_empty (location_hostname h)) \<longrightarrow>
            getCurrentEnvironment_index_ts c h =
              Inr (if str_includes (or_empty (location_hostname h)) ''prod''
                   then ''production''
                   else spec_hostname_heuristic (or_empty (location_hostname h))))"
proof -
  have a: "getCurrentEnvironment c h =
             Inr (if str_includes (or_empty (location_hostname h)) ''prod''
                  then ''production''
                  else spec_hostname_heuristic (or_empty (location_hostname h)))"
    if "getCustomEnv h = []" and "getNodeEnv h = []"
      and "\<not> stage_only (or_empty (location_hostname h))"
    using that(3) detectEnvironment_hostname [OF assms(3,4) that(1,2)]
    by (auto simp: getCurrentEnvironment_detect [OF assms(1,2)] Let_def
          spec_hostname_heuristic_def stage_only_def)
  have b: "getCurrentEnvironment_index_ts c h =
             Inr (if str_includes (or_empty (location_hostname h)) ''prod''
                  then ''production''
                  else spec_hostname_heuristic (or_empty (location_hostname h)))"
    if "\<not> isValidEnvironmentString (nodeEnv_index_ts h)"
      and "\<not> missed_by_index_ts (or_empty (location_hostname h))"
    using that(2) detectEnvironment_index_ts_hostname [OF assms(3,4) that(1)]
    by (auto simp: getCurrentEnvironment_index_ts_detect [OF assms(1,2)] Let_def
          spec_hostname_heuristic_def missed_by_index_ts_def)
  show ?thesis
    using a b by blast
qed

theorem hostname_heuristic_witness:
  "forceEnv DEFAULT_CONFIG = None \<and> autoDetectEnv DEFAULT_CONFIG = Some True \<and>
   window_defined devStageHost \<and> navigator_defined devStageHost \<and>
   getCustomEnv devStageHost = [] \<and> getNodeEnv devStageHost = [] \<and>
   \<not> stage_only (or_empty (location_hostname devStageHost)) \<and>
   getCurrentEnvironment DEFAULT_CONFIG devStageHost = Inr ''staging'' \<and>
   \<not> isValidEnvironmentString (nodeEnv_index_ts devStageHost) \<and>
   \<not> missed_by_index_ts (or_empty (location_hostname devStageHost)) \<and>
   getCurrentEnvironment_index_ts DEFAULT_CONFIG devStageHost = Inr ''staging''"
  using hostname_heuristic [of DEFAULT_CONFIG devStageHost]
  by (simp add: resolver_eval devStageHost_def stage_only_def spec_hostname_heuristic_def
        nodeEnv_index_ts_def missed_by_index_ts_def getCurrentEnvironment_index_ts_def
        detectEnvironment_index_ts_def)

text \<open>
  The claim as stated fails on a hostname that contains "prod" besides "staging": the
  production branch comes first in the code, in both files.
\<close>

theorem hostname_heuristic_counterexample:
  "forceEnv DEFAULT_CONFIG = None \<and> autoDetectEnv DEFAULT_CONFIG = Some True \<and>
   getCustomEnv preprodStagingHost = [] \<and> getNodeEnv preprodStagingHost = [] \<and>
   nodeEnv_index_ts preprodStagingHost = [] \<and>
   location_hostname preprodStagingHost = Some ''preprod-staging.example.com'' \<and>
   spec_hostname_heuristic ''preprod-staging.example.com'' = ''staging'' \<and>
   getCurrentEnvironment DEFAULT_CONFIG preprodStagingHost = Inr ''production'' \<and>
   getCurrentEnvironment_index_ts DEFAULT_CONFIG preprodStagingHost = Inr ''production''"
  by (simp add: resolver_eval preprodStagingHost_def spec_hostname_heuristic_def
        nodeEnv_index_ts_def getCurrentEnvironment_index_ts_def
        detectEnvironment_index_ts_def)

subsection \<open>C2: the priority of the signals\<close>

text \<open>
  Claim C2. With no override and auto-detect enabled, the custom-variable match is the
  value of the first variable of the fixed list that holds one of the four names; when
  there is one, it is the result on every page that offers the same custom variables,
  whatever its \<^verbatim>\<open>NODE_ENV\<close> and hostname. When there is none and the generic signal
  yields a name, that name is the result on every page that offers the same custom and
  generic variables, whatever its hostname.
\<close>

theorem resolution_priority:
  assumes "forceEnv c = None" and "autoDetectEnv c = Some True"
    and "window_defined h'" and "navigator_defined h'"
    and "custom_vars_of h' = custom_vars_of h"
  shows "getCustomEnv h = or_empty (spec_custom_signal h) \<and>
         (getCustomEnv h \<noteq> [] \<longrightarrow> getCurrentEnvironment c h' = Inr (getCustomEnv h)) \<and>
         (getCustomEnv h = [] \<and> getNodeEnv h \<noteq> [] \<and> node_vars_of h' = node_vars_of h \<longrightarrow>
            getCurrentEnvironment c h' = Inr (getNodeEnv h))"
proof -
  have d: "getCurrentEnvironment c h' = detectEnvironment h'"
    using assms(1,2) by (rule getCurrentEnvironment_detect)
  have c: "getCustomEnv h' = getCustomEnv h"
    using assms(5) by (rule getCustomEnv_cong)
  have "getCustomEnv h \<noteq> [] \<Longrightarrow> detectEnvironment h' = Inr (getCustomEnv h)"
    using assms(3,4) c by (simp add: detectEnvironment_def Let_def)
  moreover have "detectEnvironment h' = Inr (getNodeEnv h)"
    if "getCustomEnv h = []" and "getNodeEnv h \<noteq> []" and "node_vars_of h' = node_vars_of h"
  proof -
    have "getNodeEnv h' = getNodeEnv h"
      using that(3) by (rule getNodeEnv_cong)
    then show ?thesis
      using assms(3,4) c that(1,2) by (simp add: detectEnvironment_def Let_def)
  qed
  ultimately show ?thesis
    using d getCustomEnv_spec by simp
qed

theorem resolution_priority_witness:
  "custom_vars_of customHostB = custom_vars_of customHostA \<and>
   getCustomEnv customHostA = ''staging'' \<and>
   spec_custom_signal customHostA = Some ''staging'' \<and>
   getNodeEnv customHostB = ''test'' \<and>
   getCurrentEnvironment DEFAULT_CONFIG customHostB = Inr ''staging'' \<and>
   custom_vars_of nodeHostB = custom_vars_of nodeHostA \<and>
   node_vars_of nodeHostB = node_vars_of nodeHostA \<and>
   getCustomEnv nodeHostA = [] \<and> getNodeEnv nodeHostA = ''test'' \<and>
   location_hostname nodeHostB = Some ''localhost'' \<and>
   getCurrentEnvironment DEFAULT_CONFIG nodeHostB = Inr ''test''"
  using resolution_priority [of DEFAULT_CONFIG customHostB customHostA]
    resolution_priority [of DEFAULT_CONFIG nodeHostB nodeHostA]
  by (simp add: resolver_eval customHostA_def customHostB_def nodeHostA_def nodeHostB_def
        custom_vars_of_def node_vars_of_def spec_custom_signal_def spec_custom_match_def
        List.map_filter_simps)

subsection \<open>C3: five hostnames\<close>

text \<open>
  Claim C3 says that, with no override, auto-detect enabled and no
  environment-variable signal, "staging.example.com" resolves to staging,
  "my-test-site.io" to test, "app.example.com" to production, "localhost" to
  development and the empty hostname to development. The code at these inputs: the
  resolver with custom variables returns all five as claimed; the resolver of
  src/index.ts returns staging, production and development for the first, third and
  fourth, but production for "my-test-site.io" and for the empty hostname, because its
  production branch excludes neither "test" nor the empty hostname, although its test
  branch looks for "test" and its last line defaults to development.
\<close>

theorem index_ts_misses_test_and_empty:
  "getCurrentEnvironment DEFAULT_CONFIG (browserHost ''staging.example.com'' None None) =
     Inr ''staging'' \<and>
   getCurrentEnvironment DEFAULT_CONFIG (browserHost ''my-test-site.io'' None None) =
     Inr ''test'' \<and>
   getCurrentEnvironment DEFAULT_CONFIG (browserHost ''app.example.com'' None None) =
     Inr ''production'' \<and>
   getCurrentEnvironment DEFAULT_CONFIG (browserHost ''localhost'' None None) =
     Inr ''development'' \<and>
   getCurrentEnvironment DEFAULT_CONFIG (browserHost [] None None) = Inr ''development'' \<and>
   getCurrentEnvironment_index_ts DEFAULT_CONFIG_index_ts
     (browserHost ''staging.example.com'' None None) = Inr ''staging'' \<and>
   getCurrentEnvironment_index_ts DEFAULT_CONFIG_index_ts
     (browserHost ''my-test-site.io'' None None) = Inr ''production'' \<and>
   getCurrentEnvironment_index_ts DEFAULT_CONFIG_index_ts
     (browserHost ''app.example.com'' None None) = Inr ''production'' \<and>
   getCurrentEnvironment_index_ts DEFAULT_CONFIG_index_ts
     (browserHost ''localhost'' None None) = Inr ''development'' \<and>
   getCurrentEnvironment_index_ts DEFAULT_CONFIG_index_ts
     (browserHost [] None None) = Inr ''production''"
  by (simp add: resolver_eval getCurrentEnvironment_index_ts_def
        detectEnvironment_index_ts_def DEFAULT_CONFIG_index_ts_def)

subsection \<open>C4: the override\<close>

text \<open>
  Claim C4. When the override is set to one of the four names,
  \<^verbatim>\<open>getCurrentEnvironment\<close> returns that name on every host and whether auto-detect is
  enabled or not, in both files.
\<close>

theorem force_override:
  assumes "isValidEnvironmentString e" and "forceEnv c = Some e"
  shows "getCurrentEnvironment c h = Inr e \<and> getCurrentEnvironment_index_ts c h = Inr e"
  using assms
  by (simp add: getCurrentEnvironment_def getCurrentEnvironment_index_ts_def truthy_def
        or_empty_def valid_nonempty)

theorem force_override_witness:
  "isValidEnvironmentString ''staging'' \<and> forceEnv forcedConfig = Some ''staging'' \<and>
   autoDetectEnv forcedConfig = Some False \<and> \<not> window_defined serverHost \<and>
   getNodeEnv serverHost = ''production'' \<and>
   getCurrentEnvironment forcedConfig serverHost = Inr ''staging'' \<and>
   getCurrentEnvironment (forcedConfig\<lparr> autoDetectEnv := Some True \<rparr>) customHostA =
     Inr ''staging''"
  using force_override [of "''staging''" forcedConfig serverHost]
    force_override [of "''staging''" "forcedConfig\<lparr> autoDetectEnv := Some True \<rparr>" customHostA]
  by (simp add: forcedConfig_def serverHost_def DEFAULT_CONFIG_def getNodeEnv_def truthy_def
        or_empty_def isValidEnvironmentString_def)

subsection \<open>C5: calling init twice\<close>

text \<open>
  Claim C5, as amended. The invariant "zero or one indicator element in the document"
  is kept by \<^verbatim>\<open>init\<close>: from every state that satisfies it, and whether or not an
  animation frame comes between the calls, two calls of \<^verbatim>\<open>init\<close> never leave two
  indicator elements in the document. When the component is enabled, its size is
  defined and the host is a browser page with a body, exactly one indicator element is
  in the document once the animation frame after the second call has run.
\<close>

theorem init_twice_one_indicator:
  assumes "indicator_inv s"
  shows "indicator_inv (snd (init h s)) \<and>
         indicatorCount (snd (init h s)) \<le> 1 \<and>
         indicatorCount (maybeFrame tick (snd (init h s))) \<le> 1 \<and>
         indicatorCount (snd (init h (maybeFrame tick (snd (init h s))))) \<le> 1 \<and>
         indicatorCount (animationFrame (snd (init h (maybeFrame tick (snd (init h s)))))) \<le> 1 \<and>
         (window_defined h \<and> document_defined h \<and> navigator_defined h \<and>
          requestAnimationFrame_defined h \<and> enabled (config s) = Some True \<and>
          size_cfg (config s) \<noteq> None \<and> body s \<noteq> None \<longrightarrow>
            indicatorCount
              (animationFrame (snd (init h (maybeFrame tick (snd (init h s)))))) = 1)"
proof -
  let ?s1 = "snd (init h s)"
  let ?t = "maybeFrame tick ?s1"
  let ?s2 = "snd (init h ?t)"
  have i1: "indicator_inv ?s1" using assms by (rule init_inv)
  have it: "indicator_inv ?t" using i1 by (rule maybeFrame_inv)
  have i2: "indicator_inv ?s2" using it by (rule init_inv)
  have i3: "indicator_inv (animationFrame ?s2)" using i2 by (rule animationFrame_inv)
  have one: "indicatorCount (animationFrame ?s2) = 1"
    if h: "window_defined h" "document_defined h" "navigator_defined h"
      "requestAnimationFrame_defined h" and en: "enabled (config s) = Some True"
      and sz: "size_cfg (config s) \<noteq> None" and b: "body s \<noteq> None"
  proof -
    have b1: "body ?s1 \<noteq> None"
      using init_browser(3) [OF assms h en sz b] by simp
    have ent: "enabled (config ?t) = Some True" and szt: "size_cfg (config ?t) \<noteq> None"
      and bt: "body ?t \<noteq> None"
      using en sz b1 by simp_all
    note n = init_browser [OF it h ent szt bt]
    have "body (animationFrame ?s2) = Some [nextRef ?t]"
      using i2 n(2) n(3) n(4) by (rule animationFrame_inserts)
    then show ?thesis by (simp add: indicatorCount_def)
  qed
  show ?thesis
    using i1 inv_count [OF i1] inv_count [OF it] inv_count [OF i2] inv_count [OF i3] one
    by blast
qed

theorem init_twice_one_indicator_witness:
  "indicator_inv freshState \<and> window_defined localHost \<and> document_defined localHost \<and>
   navigator_defined localHost \<and> requestAnimationFrame_defined localHost \<and>
   enabled (config freshState) = Some True \<and> size_cfg (config freshState) \<noteq> None \<and>
   body freshState \<noteq> None \<and>
   indicatorCount
     (animationFrame
        (snd (init localHost (maybeFrame False (snd (init localHost freshState)))))) = 1 \<and>
   indicatorCount
     (animationFrame
        (snd (init localHost (maybeFrame True (snd (init localHost freshState)))))) = 1"
  using init_twice_one_indicator [OF freshState_facts(1), of localHost False]
    init_twice_one_indicator [OF freshState_facts(1), of localHost True]
  by (simp add: freshState_facts localHost_facts)

text \<open>
  The claim as stated fails twice. Right after the second call the document holds no
  indicator element, since the insertion waits for the animation frame; and a
  component configured disabled has none even after the frame.
\<close>

theorem init_twice_one_indicator_counterexample:
  "indicator_inv freshState \<and> enabled (config freshState) = Some True \<and>
   resolved (config freshState) \<and>
   indicatorCount (snd (init localHost (snd (init localHost freshState)))) = 0 \<and>
   indicator_inv disabledState \<and> enabled (config disabledState) = Some False \<and>
   indicatorCount
     (animationFrame (snd (init localHost (snd (init localHost disabledState))))) = 0"
proof -
  let ?s1 = "snd (init localHost freshState)"
  have i1: "indicator_inv ?s1"
    using freshState_facts(1) by (rule init_inv)
  have b1: "body ?s1 \<noteq> None"
    using init_browser(3) [OF freshState_facts(1) localHost_facts(1-4) freshState_facts(2,9)]
    by (simp add: freshState_facts)
  have "body (snd (init localHost ?s1)) = Some []"
    using i1 localHost_facts(1-4) _ _ b1
    by (rule init_browser(3)) (simp_all add: freshState_facts)
  then have a: "indicatorCount (snd (init localHost ?s1)) = 0"
    by (simp add: indicatorCount_def)
  have d: "init localHost disabledState = (Returned, disabledState)"
    by (rule init_disabled) (simp add: disabledState_facts)
  have "body (animationFrame disabledState) = body disabledState"
    by (simp add: animationFrame_absent disabledState_facts)
  then have b: "indicatorCount (animationFrame disabledState) = 0"
    using disabledState_facts(2) by (simp add: indicatorCount_def)
  show ?thesis
    using a b freshState_facts(1,2,10) disabledState_facts(1,6) by (simp add: d)
qed

subsection \<open>C6: init followed by destroy\<close>

text \<open>
  Claim C6 says that after \<^verbatim>\<open>init()\<close> and \<^verbatim>\<open>destroy()\<close>, however the deferred insertion
  falls between and around the calls, the document holds no indicator element and the
  listener registry is empty. The code at the input: a new component on a browser page,
  \<^verbatim>\<open>init()\<close>, \<^verbatim>\<open>destroy()\<close> before the animation frame, then the frame. \<^verbatim>\<open>destroy\<close> returns
  with the registry empty and no listener left on the element, but it keeps the element
  in \<^verbatim>\<open>this.flagElement\<close>, and the frame inserts it: one indicator element is in the
  document.
\<close>

theorem destroy_keeps_pending_insertion:
  "fst (destroy localHost (snd (init localHost freshState))) = Returned \<and>
   indicatorCount (snd (destroy localHost (snd (init localHost freshState)))) = 0 \<and>
   eventListeners (snd (destroy localHost (snd (init localHost freshState)))) = [] \<and>
   registered (snd (destroy localHost (snd (init localHost freshState)))) = [] \<and>
   flagElement (snd (destroy localHost (snd (init localHost freshState)))) = Some 0 \<and>
   body (animationFrame (snd (destroy localHost (snd (init localHost freshState))))) =
     Some [0] \<and>
   indicatorCount
     (animationFrame (snd (destroy localHost (snd (init localHost freshState))))) = 1"
proof -
  note d = destroy_before_frame
             [OF freshState_facts(1) localHost_facts(1-4) freshState_facts(2,9)]
  have b: "body freshState \<noteq> None"
    by (simp add: freshState_facts)
  have "registered (snd (destroy localHost (snd (init localHost freshState)))) = []"
    by (simp add: destroy_registered freshState_init_listeners(2))
  then show ?thesis
    using d(1) [OF b] d(2) [OF b] d(3) [OF b] d(4) [OF b]
    by (simp add: freshState_facts indicatorCount_def)
qed

subsection \<open>C7: a disabled component\<close>

text \<open>
  Claim C7, as amended. When \<^verbatim>\<open>enabled\<close> is false (or undefined), \<^verbatim>\<open>init()\<close> changes
  nothing, in both files. So when no indicator element is in the document and none can still be
  inserted, none is present after the call nor after the next animation frame.
\<close>

theorem init_disabled_noop:
  assumes "enabled (config s) \<noteq> Some True"
  shows "init h s = (Returned, s) \<and> init_index_ts h s = (Returned, s) \<and>
         (absent s \<longrightarrow> indicatorCount (snd (init h s)) = 0 \<and>
                        indicatorCount (animationFrame (snd (init h s))) = 0)"
proof -
  have "indicatorCount (animationFrame s) = 0" if "absent s"
    using that animationFrame_absent [of s] by (auto simp: absent_def indicatorCount_def)
  then show ?thesis
    using assms by (auto simp: init_disabled init_index_ts_disabled absent_def)
qed

theorem init_disabled_noop_witness:
  "enabled (config disabledState) = Some False \<and> absent disabledState \<and>
   init localHost disabledState = (Returned, disabledState) \<and>
   indicatorCount (animationFrame (snd (init localHost disabledState))) = 0"
  using init_disabled_noop [of disabledState localHost]
  by (auto simp: disabledState_facts)

text \<open>
  The claim as stated fails when an element is already present: the indicator is
  shown, \<^verbatim>\<open>updateConfig({enabled: false})\<close> switches the component off, and \<^verbatim>\<open>init()\<close>
  returns at its guard before the teardown, so the element stays in the document.
\<close>

theorem init_disabled_noop_counterexample:
  "indicatorCount shownState = 1 \<and> enabled (config switchedOffState) = Some False \<and>
   indicatorCount switchedOffState = 1 \<and>
   indicatorCount (snd (init localHost switchedOffState)) = 1"
proof -
  have e: "enabled (config switchedOffState) = Some False"
    by (simp add: switchedOffState_eq assign_def assignField_def)
  have "init localHost switchedOffState = (Returned, switchedOffState)"
    by (rule init_disabled) (simp add: e)
  then show ?thesis
    using e by (simp add: indicatorCount_def shownState_facts switchedOffState_eq)
qed

subsection \<open>C8: exceptions\<close>

text \<open>
  Claim C8, as amended. In src/index.ts, \<^verbatim>\<open>init()\<close> and \<^verbatim>\<open>destroy()\<close> never let an
  exception reach the caller; and when \<^verbatim>\<open>init()\<close> has caught one, the document holds no
  indicator element and no insertion has been scheduled by the call. (The component may
  then hold an element that was created and never inserted, with its listeners; and the
  other file has no handler at all.)
\<close>

theorem index_ts_catches:
  "fst (init_index_ts h s) = Returned \<and> fst (destroy_index_ts h s) = Returned \<and>
   (indicator_inv s \<and> fst (init_index_ts_block h s) \<noteq> Returned \<longrightarrow>
      indicatorCount (snd (init_index_ts h s)) = 0 \<and>
      animationFrames (snd (init_index_ts h s)) = animationFrames s)"
proof -
  have "indicatorCount (snd (init_index_ts h s)) = 0 \<and>
        animationFrames (snd (init_index_ts h s)) = animationFrames s"
    if inv: "indicator_inv s" and thr: "fst (init_index_ts_block h s) \<noteq> Returned"
  proof -
    have v: "isValidEnvironment h" and en: "enabled (config s) = Some True"
      using thr by (auto simp: init_index_ts_block_def split: if_splits)
    then have d: "document_defined h" by (simp add: isValidEnvironment_def)
    let ?d = "snd (destroy h s)"
    have blk: "init_index_ts_block h s = createFlag_index_ts h ?d"
      using v en by (rule init_index_ts_block_eq)
    have "indicatorCount (snd (createFlag_index_ts h ?d)) = 0"
      using destroy_clears(2) [OF inv d] by (simp add: indicatorCount_def)
    moreover have "animationFrames (snd (createFlag_index_ts h ?d)) = animationFrames s"
      using thr destroy_clears(3) [OF inv d] createFlag_index_ts_threw [of h ?d]
      by (simp add: blk)
    ultimately show ?thesis
      by (simp add: init_index_ts_def blk)
  qed
  then show ?thesis
    by (simp add: init_index_ts_def destroy_index_ts_def)
qed

theorem index_ts_catches_witness:
  "indicator_inv freshState_index_ts \<and>
   fst (init_index_ts_block noFrameHost freshState_index_ts) \<noteq> Returned \<and>
   fst (init_index_ts noFrameHost freshState_index_ts) = Returned \<and>
   indicatorCount (snd (init_index_ts noFrameHost freshState_index_ts)) = 0 \<and>
   animationFrames (snd (init_index_ts noFrameHost freshState_index_ts)) = []"
  using index_ts_catches [of noFrameHost freshState_index_ts]
  by (simp add: freshState_index_ts_facts noFrame_index_ts_block(1))

text \<open>
  The claim as stated fails on a page without \<^verbatim>\<open>requestAnimationFrame\<close>. The \<^verbatim>\<open>init\<close>
  without handler lets the exception reach the caller. The \<^verbatim>\<open>init\<close> of src/index.ts
  catches it and leaves a component that holds an element and four listener
  registrations, where a component in the state ABSENT holds neither.
\<close>

theorem index_ts_catches_counterexample:
  "fst (init noFrameHost freshState) = Threw (ReferenceError ''requestAnimationFrame'') \<and>
   flagElement freshState_index_ts = None \<and> eventListeners freshState_index_ts = [] \<and>
   fst (init_index_ts noFrameHost freshState_index_ts) = Returned \<and>
   flagElement (snd (init_index_ts noFrameHost freshState_index_ts)) = Some 0 \<and>
   length (eventListeners (snd (init_index_ts noFrameHost freshState_index_ts))) = 4 \<and>
   indicatorCount (snd (init_index_ts noFrameHost freshState_index_ts)) = 0"
  by (simp add: noFrame_init_throws freshState_index_ts_facts init_index_ts_def
        noFrame_index_ts_block indicatorCount_def)

subsection \<open>C9: merging a partial configuration\<close>

text \<open>
  Claim C9, as amended. \<^verbatim>\<open>updateConfig\<close> merges the partial configuration over the
  existing one before \<^verbatim>\<open>init\<close> runs, and the configuration after the call is that merge
  whatever \<^verbatim>\<open>init\<close> does: every field named in the partial takes what the partial gives,
  every other field keeps its value, and a partial that names nothing changes nothing;
  the constructor merges over the defaults in the same way. When the configuration is
  fully resolved and the partial names none of the fields other than the override with
  \<^verbatim>\<open>undefined\<close>, the configuration is fully resolved afterwards.
\<close>

theorem updateConfig_merges:
  "config (snd (updateConfig h p s)) = assign (config s) p \<and>
   updateConfig h p s = init h (s\<lparr> config := assign (config s) p \<rparr>) \<and>
   config (new_EnvFlag p d) = assign DEFAULT_CONFIG p \<and>
   resolved DEFAULT_CONFIG \<and>
   assign c noConfig = c \<and>
   productionColor (assign c p) =
     (case opt_productionColor p of None \<Rightarrow> productionColor c | Some v \<Rightarrow> v) \<and>
   developmentColor (assign c p) =
     (case opt_developmentColor p of None \<Rightarrow> developmentColor c | Some v \<Rightarrow> v) \<and>
   stagingColor (assign c p) =
     (case opt_stagingColor p of None \<Rightarrow> stagingColor c | Some v \<Rightarrow> v) \<and>
   testColor (assign c p) = (case opt_testColor p of None \<Rightarrow> testColor c | Some v \<Rightarrow> v) \<and>
   productionText (assign c p) =
     (case opt_productionText p of None \<Rightarrow> productionText c | Some v \<Rightarrow> v) \<and>
   developmentText (assign c p) =
     (case opt_developmentText p of None \<Rightarrow> developmentText c | Some v \<Rightarrow> v) \<and>
   stagingText (assign c p) =
     (case opt_stagingText p of None \<Rightarrow> stagingText c | Some v \<Rightarrow> v) \<and>
   testText (assign c p) = (case opt_testText p of None \<Rightarrow> testText c | Some v \<Rightarrow> v) \<and>
   position (assign c p) = (case opt_position p of None \<Rightarrow> position c | Some v \<Rightarrow> v) \<and>
   size_cfg (assign c p) = (case opt_size p of None \<Rightarrow> size_cfg c | Some v \<Rightarrow> v) \<and>
   autoDetectEnv (assign c p) =
     (case opt_autoDetectEnv p of None \<Rightarrow> autoDetectEnv c | Some v \<Rightarrow> v) \<and>
   forceEnv (assign c p) = (case opt_forceEnv p of None \<Rightarrow> forceEnv c | Some v \<Rightarrow> v) \<and>
   enabled (assign c p) = (case opt_enabled p of None \<Rightarrow> enabled c | Some v \<Rightarrow> v) \<and>
   debug (assign c p) = (case opt_debug p of None \<Rightarrow> debug c | Some v \<Rightarrow> v) \<and>
   (resolved c \<and> names_values p \<longrightarrow> resolved (assign c p))"
proof -
  have "config (snd (updateConfig h p s)) = assign (config s) p"
    by (simp add: updateConfig_def)
  moreover have "assign c noConfig = c"
    by (simp add: assign_def assignField_def noConfig_def)
  moreover have "resolved (assign c p)" if "resolved c" and "names_values p"
    using that
    by (simp add: resolved_def names_values_def assign_def assignField_defined)
  moreover have "resolved DEFAULT_CONFIG"
    by (simp add: resolved_def DEFAULT_CONFIG_def)
  ultimately show ?thesis
    by (simp add: updateConfig_def new_EnvFlag_def assign_def assignField_def)
qed

theorem updateConfig_merges_witness:
  "resolved (config freshState) \<and> names_values largeSize \<and>
   resolved (config (snd (updateConfig localHost largeSize freshState))) \<and>
   size_cfg (config (snd (updateConfig localHost largeSize freshState))) = Some Large \<and>
   position (config (snd (updateConfig localHost largeSize freshState))) =
     position (config freshState)"
  using updateConfig_merges
          [of localHost largeSize freshState "emptyDocument None" "config freshState"]
  by (simp add: freshState_facts largeSize_def noConfig_def names_values_def)

text \<open>
  The claim as stated fails for a partial that names a field with \<^verbatim>\<open>undefined\<close>, as in
  \<^verbatim>\<open>updateConfig({size: undefined})\<close>: \<^verbatim>\<open>Object.assign\<close> copies the property, the size is
  undefined when \<^verbatim>\<open>init\<close> runs, and rendering raises.
\<close>

theorem updateConfig_merges_counterexample:
  "resolved (config freshState) \<and>
   size_cfg (config (snd (updateConfig localHost undefinedSize freshState))) = None \<and>
   \<not> resolved (config (snd (updateConfig localHost undefinedSize freshState))) \<and>
   fst (updateConfig localHost undefinedSize freshState) = Threw (TypeError ''fontSize'')"
proof -
  let ?s = "freshState\<lparr> config := assign (config freshState) undefinedSize \<rparr>"
  let ?d = "snd (destroy localHost ?s)"
  have sz: "size_cfg (assign (config freshState) undefinedSize) = None"
    by (simp add: assign_def assignField_def undefinedSize_def noConfig_def)
  have en: "enabled (config ?s) = Some True"
    using freshState_facts(2)
    by (simp add: assign_def assignField_def undefinedSize_def noConfig_def)
  have inv: "indicator_inv ?s"
    using freshState_facts(1) by (simp add: indicator_inv_def indicatorCount_def)
  obtain env where env: "getCurrentEnvironment (config ?d) localHost = Inr env"
    using getCurrentEnvironment_returns [OF localHost_facts(1,3)] by blast
  have szd: "size_cfg (config ?d) = None"
    using sz by simp
  have "init localHost ?s = createFlag localHost ?d"
    using inv localHost_facts(5) en by (rule init_eq)
  then have "fst (updateConfig localHost undefinedSize freshState) =
             Threw (TypeError ''fontSize'')"
    by (simp add: updateConfig_def createFlag_undefined_size(1) [OF env localHost_facts(2) szd])
  then show ?thesis
    using sz freshState_facts(10) by (simp add: updateConfig_def resolved_def)
qed

subsection \<open>C10: totality and range of the resolver\<close>

text \<open>
  Claim C10. For every configuration of the declared type and every browser page,
  whatever strings its environment variables and hostname hold,
  \<^verbatim>\<open>getCurrentEnvironment\<close> returns, and returns one of the four names; what the custom
  and generic signals yield is one of the four names or nothing.
\<close>

theorem getCurrentEnvironment_total:
  assumes "wellTyped c" and "window_defined h" and "navigator_defined h"
  shows "(case getCurrentEnvironment c h of
            Inl err \<Rightarrow> False
          | Inr e \<Rightarrow> isValidEnvironmentString e) \<and>
         (getCustomEnv h = [] \<or> isValidEnvironmentString (getCustomEnv h)) \<and>
         (getNodeEnv h = [] \<or> isValidEnvironmentString (getNodeEnv h))"
proof -
  have f: "truthy (forceEnv c) \<Longrightarrow> isValidEnvironmentString (or_empty (forceEnv c))"
    using assms(1) by (auto simp: wellTyped_def truthy_def or_empty_def split: option.splits)
  have dev: "isValidEnvironmentString ''development''"
    by (simp add: isValidEnvironmentString_def)
  have det: "case detectEnvironment h of
               Inl err \<Rightarrow> False
             | Inr e \<Rightarrow> isValidEnvironmentString e"
    using assms(2,3) getCustomEnv_valid [of h] getNodeEnv_valid [of h]
    by (auto simp: detectEnvironment_def Let_def isValidEnvironmentString_def)
  show ?thesis
    using f dev det getCustomEnv_valid [of h] getNodeEnv_valid [of h]
    by (simp add: getCurrentEnvironment_def)
qed

theorem getCurrentEnvironment_total_witness:
  "wellTyped DEFAULT_CONFIG \<and> window_defined malformedHost \<and>
   navigator_defined malformedHost \<and>
   getCustomEnv malformedHost = [] \<and> getNodeEnv malformedHost = [] \<and>
   getCurrentEnvironment DEFAULT_CONFIG malformedHost = Inr ''production'' \<and>
   isValidEnvironmentString ''production''"
  using getCurrentEnvironment_total [of DEFAULT_CONFIG malformedHost]
  by (simp add: resolver_eval malformedHost_def wellTyped_def)

end
